theory Spec2Isabelle
  imports Main "HOL-Library.Word"
begin

unbundle bit_operations_syntax

section \<open>Kernel image verification, firmware portion (vkernel/kernel_image_fw.c)\<close>

subsection \<open>Bytes and pointers\<close>

text \<open>
  A \<^verbatim>\<open>uint8_t*\<close> is a pointer without a length: the functions below read at byte offsets
  from it and make no bounds check of their own. A blob is therefore the memory seen from
  the pointer, one byte per offset, and pointer arithmetic \<^verbatim>\<open>p + n\<close> shifts the offsets.
\<close>

type_synonym blob = "nat \<Rightarrow> 8 word"

definition ptr_add :: "blob \<Rightarrow> nat \<Rightarrow> blob" where
  "ptr_add p n = (\<lambda>i. p (n + i))"

definition bytes_at :: "blob \<Rightarrow> nat \<Rightarrow> nat \<Rightarrow> 8 word list" where
  "bytes_at p off n = map p [off..<off + n]"

text \<open>
  \<^verbatim>\<open>Memcpy(&v, p, sizeof(v))\<close> into an integer variable reads the variable's bytes in the
  byte order of the machine. Modelled from the spec: section 6 fixes all integer fields of
  the kernel image as little-endian (the build targets are absent from the sources).
\<close>

fun le_value :: "8 word list \<Rightarrow> nat" where
  "le_value [] = 0"
| "le_value (b # bs) = unat b + 256 * le_value bs"

definition Memcpy_u16 :: "blob \<Rightarrow> nat \<Rightarrow> 16 word" where
  "Memcpy_u16 p off = word_of_nat (le_value (bytes_at p off 2))"

definition Memcpy_u64 :: "blob \<Rightarrow> nat \<Rightarrow> 64 word" where
  "Memcpy_u64 p off = word_of_nat (le_value (bytes_at p off 8))"

text \<open>\<^verbatim>\<open>SafeMemcmp(s1, s2, n)\<close> is nonzero exactly when the first \<open>n\<close> bytes differ.\<close>

definition SafeMemcmp :: "blob \<Rightarrow> blob \<Rightarrow> nat \<Rightarrow> bool" where
  "SafeMemcmp s1 s2 n = (bytes_at s1 0 n \<noteq> bytes_at s2 0 n)"

text \<open>
  Modelled from the spec: \<^verbatim>\<open>CombineUint16Pair\<close> and \<^verbatim>\<open>Min\<close> are macros of the absent
  utility.h. The spec gives the logical version as
  \<^verbatim>\<open>(kernel_key_version << 16) | kernel_version\<close>, a 32-bit value.
\<close>

definition CombineUint16Pair :: "16 word \<Rightarrow> 16 word \<Rightarrow> 32 word" where
  "CombineUint16Pair msw lsw = push_bit 16 (ucast msw) OR ucast lsw"

definition Min_u32 :: "32 word \<Rightarrow> 32 word \<Rightarrow> 32 word" where
  "Min_u32 a b = (if a < b then a else b)"

subsection \<open>Result codes\<close>

text \<open>
  The codes index \<^verbatim>\<open>kVerifyKernelErrors\<close>, in this order; \<^verbatim>\<open>return 0\<close> is
  \<^verbatim>\<open>VERIFY_KERNEL_SUCCESS\<close>.
\<close>

datatype verify_kernel_result =
    VERIFY_KERNEL_SUCCESS
  | VERIFY_KERNEL_INVALID_IMAGE
  | VERIFY_KERNEL_KEY_SIGNATURE_FAILED
  | VERIFY_KERNEL_INVALID_ALGORITHM
  | VERIFY_KERNEL_CONFIG_SIGNATURE_FAILED
  | VERIFY_KERNEL_SIGNATURE_FAILED
  | VERIFY_KERNEL_WRONG_MAGIC

subsection \<open>The collaborators: image layout, cryptolib\<close>

text \<open>
  The fields of \<^verbatim>\<open>KernelImage\<close> that \<^verbatim>\<open>FIELD_LEN\<close> is applied to. The struct is declared
  in a header that is not part of the sources, so the field sizes are a parameter.
\<close>

datatype field =
    f_magic
  | f_header_version
  | f_header_len
  | f_firmware_sign_algorithm
  | f_kernel_sign_algorithm
  | f_kernel_key_version
  | f_header_checksum
  | f_kernel_version
  | f_options_version
  | f_options_cmd_line
  | f_options_kernel_len
  | f_options_kernel_load_addr
  | f_options_kernel_entry_addr

text \<open>
  Everything the file takes from kernel_image_fw.h and cryptolib.h: constants, the two
  tables and the digest and signature primitives. \<open>'k\<close> is \<^verbatim>\<open>RSAPublicKey\<close>; a \<^verbatim>\<open>NULL\<close>
  pointer is \<open>None\<close>. Sizes and algorithm numbers are \<open>nat\<close>: the code only compares them
  and adds them to offsets. The incremental digest (\<^verbatim>\<open>DigestInit\<close>, \<^verbatim>\<open>DigestUpdate\<close>,
  \<^verbatim>\<open>DigestFinal\<close>) is given by its result on the list of spans (pointer, length) fed to it.
\<close>

record 'k cryptolib =
  FIELD_LEN :: "field \<Rightarrow> nat"
  KERNEL_MAGIC :: blob
  KERNEL_MAGIC_SIZE :: nat
  SHA512_DIGEST_ALGORITHM :: nat
  kNumAlgorithms :: nat
  siglen_map :: "nat \<Rightarrow> nat"
  RSAProcessedKeySize :: "nat \<Rightarrow> nat"
  RSAPublicKeyFromBuf :: "blob \<Rightarrow> nat \<Rightarrow> 'k option"
  RSAVerifyBinary_f :: "blob option \<Rightarrow> 'k option \<Rightarrow> blob \<Rightarrow> nat \<Rightarrow> blob \<Rightarrow> nat \<Rightarrow> bool"
  RSAVerifyBinaryWithDigest_f :: "blob option \<Rightarrow> 'k option \<Rightarrow> blob \<Rightarrow> blob \<Rightarrow> nat \<Rightarrow> bool"
  DigestBuf :: "blob \<Rightarrow> nat \<Rightarrow> nat \<Rightarrow> blob"
  DigestFinal :: "nat \<Rightarrow> (blob \<times> nat) list \<Rightarrow> blob"

text \<open>
  Every call of a collaborator and every table access is recorded, in program order, so
  that "no signature is verified" and "no table is indexed" are statements about a run.
\<close>

datatype version_slot = KERNEL_KEY_VERSION | KERNEL_VERSION

datatype event =
    Ev_RSAProcessedKeySize nat
  | Ev_siglen_map nat
  | Ev_DigestBuf nat
  | Ev_DigestFinal nat
  | Ev_RSAPublicKeyFromBuf nat
  | Ev_RSAVerifyBinary_f nat
  | Ev_RSAVerifyBinaryWithDigest_f nat
  | Ev_GetStoredVersion version_slot
  | Ev_WriteStoredVersion version_slot "16 word"
  | Ev_LockStoredVersion version_slot

fun is_signature_check :: "event \<Rightarrow> bool" where
  "is_signature_check (Ev_RSAVerifyBinary_f a) = True"
| "is_signature_check (Ev_RSAVerifyBinaryWithDigest_f a) = True"
| "is_signature_check e = False"

fun is_digest :: "event \<Rightarrow> bool" where
  "is_digest (Ev_DigestBuf n) = True"
| "is_digest (Ev_DigestFinal a) = True"
| "is_digest e = False"

fun writes_of :: "event list \<Rightarrow> (version_slot \<times> 16 word) list" where
  "writes_of [] = []"
| "writes_of (Ev_WriteStoredVersion slot v # es) = (slot, v) # writes_of es"
| "writes_of (e # es) = writes_of es"

fun locks_of :: "event list \<Rightarrow> version_slot list" where
  "locks_of [] = []"
| "locks_of (Ev_LockStoredVersion slot # es) = slot # locks_of es"
| "locks_of (e # es) = locks_of es"

definition KERNEL_CONFIG_FIELD_LEN :: "'k cryptolib \<Rightarrow> nat" where
  "KERNEL_CONFIG_FIELD_LEN env =
     FIELD_LEN env f_kernel_version + FIELD_LEN env f_options_version +
     FIELD_LEN env f_options_cmd_line +
     FIELD_LEN env f_options_kernel_len +
     FIELD_LEN env f_options_kernel_load_addr +
     FIELD_LEN env f_options_kernel_entry_addr"

subsection \<open>VerifyKernelHeader\<close>

text \<open>
  The three \<^verbatim>\<open>int*\<close> output locations, passed in with their contents before the call and
  returned with their contents after it.
\<close>

record header_out =
  firmware_algorithm :: nat
  kernel_algorithm :: nat
  kernel_header_len :: nat

definition base_header_checksum_offset :: "'k cryptolib \<Rightarrow> nat" where
  "base_header_checksum_offset env =
     FIELD_LEN env f_header_version +
     FIELD_LEN env f_header_len +
     FIELD_LEN env f_firmware_sign_algorithm +
     FIELD_LEN env f_kernel_sign_algorithm +
     FIELD_LEN env f_kernel_key_version"

definition VerifyKernelHeader ::
  "'k cryptolib \<Rightarrow> blob \<Rightarrow> blob \<Rightarrow> int \<Rightarrow> header_out \<Rightarrow>
     verify_kernel_result \<times> header_out \<times> event list" where
  "VerifyKernelHeader env firmware_key_blob header_blob dev_mode out =
    (let header_len = Memcpy_u16 header_blob (FIELD_LEN env f_header_version);
         firmware_sign_algorithm =
           Memcpy_u16 header_blob (FIELD_LEN env f_header_version + FIELD_LEN env f_header_len);
         kernel_sign_algorithm =
           Memcpy_u16 header_blob (FIELD_LEN env f_header_version + FIELD_LEN env f_header_len +
                                   FIELD_LEN env f_firmware_sign_algorithm)
     in
       if unat firmware_sign_algorithm \<ge> kNumAlgorithms env
       then (VERIFY_KERNEL_INVALID_ALGORITHM, out, [])
       else if unat kernel_sign_algorithm \<ge> kNumAlgorithms env
       then (VERIFY_KERNEL_INVALID_ALGORITHM, out, [])
       else
         let out1 = out\<lparr>firmware_algorithm := unat firmware_sign_algorithm,
                        kernel_algorithm := unat kernel_sign_algorithm\<rparr>;
             kernel_sign_key_len = RSAProcessedKeySize env (unat kernel_sign_algorithm);
             ev1 = [Ev_RSAProcessedKeySize (unat kernel_sign_algorithm),
                    Ev_RSAProcessedKeySize (unat firmware_sign_algorithm)]
         in
           if unat header_len \<noteq> base_header_checksum_offset env + kernel_sign_key_len +
                                  FIELD_LEN env f_header_checksum
           then (VERIFY_KERNEL_INVALID_IMAGE, out1, ev1)
           else
             let out2 = out1\<lparr>kernel_header_len := unat header_len\<rparr>;
                 header_checksum =
                   DigestBuf env header_blob (unat header_len - FIELD_LEN env f_header_checksum)
                     (SHA512_DIGEST_ALGORITHM env);
                 ev2 = ev1 @ [Ev_DigestBuf (unat header_len - FIELD_LEN env f_header_checksum)]
             in
               if SafeMemcmp header_checksum
                    (ptr_add header_blob (base_header_checksum_offset env + kernel_sign_key_len))
                    (FIELD_LEN env f_header_checksum)
               then (VERIFY_KERNEL_INVALID_IMAGE, out2, ev2)
               else if dev_mode = 0
               then
                 (if \<not> RSAVerifyBinary_f env (Some firmware_key_blob) None
                         header_blob (unat header_len)
                         (ptr_add header_blob (unat header_len))
                         (unat firmware_sign_algorithm)
                  then (VERIFY_KERNEL_KEY_SIGNATURE_FAILED, out2,
                        ev2 @ [Ev_RSAVerifyBinary_f (unat firmware_sign_algorithm)])
                  else (VERIFY_KERNEL_SUCCESS, out2,
                        ev2 @ [Ev_RSAVerifyBinary_f (unat firmware_sign_algorithm)]))
               else (VERIFY_KERNEL_SUCCESS, out2, ev2))"

subsection \<open>VerifyKernelConfig\<close>

text \<open>
  \<open>kernel_len\<close> is the content of the \<^verbatim>\<open>uint64_t*\<close> output location before the call; the
  second component of the result is its content after the call.
\<close>

definition VerifyKernelConfig ::
  "'k cryptolib \<Rightarrow> 'k option \<Rightarrow> blob \<Rightarrow> nat \<Rightarrow> 64 word \<Rightarrow>
     verify_kernel_result \<times> 64 word \<times> event list" where
  "VerifyKernelConfig env kernel_sign_key config_blob algorithm kernel_len =
    (if \<not> RSAVerifyBinary_f env None kernel_sign_key
            config_blob (KERNEL_CONFIG_FIELD_LEN env)
            (ptr_add config_blob (KERNEL_CONFIG_FIELD_LEN env))
            algorithm
     then (VERIFY_KERNEL_CONFIG_SIGNATURE_FAILED, kernel_len, [Ev_RSAVerifyBinary_f algorithm])
     else
       let len = Memcpy_u64 config_blob
                   (FIELD_LEN env f_kernel_version + FIELD_LEN env f_options_version +
                    FIELD_LEN env f_options_cmd_line)
       in (VERIFY_KERNEL_SUCCESS, len, [Ev_RSAVerifyBinary_f algorithm]))"

subsection \<open>VerifyKernelData\<close>

definition VerifyKernelData ::
  "'k cryptolib \<Rightarrow> 'k option \<Rightarrow> blob \<Rightarrow> blob \<Rightarrow> 64 word \<Rightarrow> nat \<Rightarrow>
     verify_kernel_result \<times> event list" where
  "VerifyKernelData env kernel_sign_key kernel_config_start kernel_data_start kernel_len algorithm =
    (let signature_len = siglen_map env algorithm;
         ctx = [(kernel_config_start, KERNEL_CONFIG_FIELD_LEN env),
                (ptr_add kernel_data_start signature_len, unat kernel_len)];
         digest = DigestFinal env algorithm ctx;
         ev = [Ev_siglen_map algorithm, Ev_DigestFinal algorithm,
               Ev_RSAVerifyBinaryWithDigest_f algorithm]
     in
       if \<not> RSAVerifyBinaryWithDigest_f env None kernel_sign_key digest kernel_data_start algorithm
       then (VERIFY_KERNEL_SIGNATURE_FAILED, ev)
       else (VERIFY_KERNEL_SUCCESS, ev))"

subsection \<open>VerifyKernel\<close>

text \<open>
  The locals handed to \<^verbatim>\<open>VerifyKernelHeader\<close> and \<^verbatim>\<open>VerifyKernelConfig\<close> as output
  locations are uninitialised in the source; they are read only after a call that returned 0,
  which has written them. The model starts them at 0.
\<close>

definition VerifyKernel ::
  "'k cryptolib \<Rightarrow> blob \<Rightarrow> blob \<Rightarrow> int \<Rightarrow> verify_kernel_result \<times> event list" where
  "VerifyKernel env firmware_key_blob kernel_blob dev_mode =
    (if SafeMemcmp kernel_blob (KERNEL_MAGIC env) (KERNEL_MAGIC_SIZE env)
     then (VERIFY_KERNEL_WRONG_MAGIC, [])
     else
       let header_ptr = ptr_add kernel_blob (KERNEL_MAGIC_SIZE env) in
       case VerifyKernelHeader env firmware_key_blob header_ptr dev_mode
              \<lparr>firmware_algorithm = 0, kernel_algorithm = 0, kernel_header_len = 0\<rparr> of
         (error_code, out, ev_h) \<Rightarrow>
           if error_code \<noteq> VERIFY_KERNEL_SUCCESS then (error_code, ev_h)
           else
             let firmware_sign_algorithm = firmware_algorithm out;
                 kernel_sign_algorithm = kernel_algorithm out;
                 header_len = kernel_header_len out;
                 kernel_sign_key_len = RSAProcessedKeySize env kernel_sign_algorithm;
                 kernel_sign_key_ptr =
                   ptr_add header_ptr (FIELD_LEN env f_header_version +
                                       FIELD_LEN env f_header_len +
                                       FIELD_LEN env f_firmware_sign_algorithm +
                                       FIELD_LEN env f_kernel_sign_algorithm +
                                       FIELD_LEN env f_kernel_key_version);
                 kernel_sign_key = RSAPublicKeyFromBuf env kernel_sign_key_ptr kernel_sign_key_len;
                 kernel_signature_len = siglen_map env kernel_sign_algorithm;
                 kernel_key_signature_len = siglen_map env firmware_sign_algorithm;
                 ev_k = ev_h @ [Ev_RSAProcessedKeySize kernel_sign_algorithm,
                                Ev_RSAPublicKeyFromBuf kernel_sign_key_len,
                                Ev_siglen_map kernel_sign_algorithm,
                                Ev_siglen_map firmware_sign_algorithm];
                 config_ptr = ptr_add header_ptr (header_len + kernel_key_signature_len)
             in
               case VerifyKernelConfig env kernel_sign_key config_ptr kernel_sign_algorithm 0 of
                 (error_code, kernel_len, ev_c) \<Rightarrow>
                   if error_code \<noteq> VERIFY_KERNEL_SUCCESS then (error_code, ev_k @ ev_c)
                   else
                     let kernel_ptr = ptr_add config_ptr (KERNEL_CONFIG_FIELD_LEN env +
                                                          kernel_signature_len)
                     in
                       case VerifyKernelData env kernel_sign_key config_ptr kernel_ptr
                              kernel_len kernel_sign_algorithm of
                         (error_code, ev_d) \<Rightarrow>
                           if error_code \<noteq> VERIFY_KERNEL_SUCCESS
                           then (error_code, ev_k @ ev_c @ ev_d)
                           else (VERIFY_KERNEL_SUCCESS, ev_k @ ev_c @ ev_d))"

subsection \<open>GetLogicalKernelVersion\<close>

definition GetLogicalKernelVersion :: "'k cryptolib \<Rightarrow> blob \<Rightarrow> 32 word \<times> event list" where
  "GetLogicalKernelVersion env kernel_blob =
    (let kernel_ptr0 = FIELD_LEN env f_magic +
                       FIELD_LEN env f_header_version +
                       FIELD_LEN env f_header_len;
         firmware_sign_algorithm = Memcpy_u16 kernel_blob kernel_ptr0;
         kernel_ptr1 = kernel_ptr0 + FIELD_LEN env f_firmware_sign_algorithm;
         kernel_sign_algorithm = Memcpy_u16 kernel_blob kernel_ptr1;
         kernel_ptr2 = kernel_ptr1 + FIELD_LEN env f_kernel_sign_algorithm;
         kernel_key_version = Memcpy_u16 kernel_blob kernel_ptr2
     in
       if unat firmware_sign_algorithm \<ge> kNumAlgorithms env then (0, [])
       else if unat kernel_sign_algorithm \<ge> kNumAlgorithms env then (0, [])
       else
         let kernel_key_signature_len = siglen_map env (unat firmware_sign_algorithm);
             kernel_sign_key_len = RSAProcessedKeySize env (unat kernel_sign_algorithm);
             kernel_ptr3 = kernel_ptr2 + (FIELD_LEN env f_kernel_key_version +
                                          kernel_sign_key_len +
                                          FIELD_LEN env f_header_checksum +
                                          kernel_key_signature_len);
             kernel_version = Memcpy_u16 kernel_blob kernel_ptr3
         in (CombineUint16Pair kernel_key_version kernel_version,
             [Ev_siglen_map (unat firmware_sign_algorithm),
              Ev_RSAProcessedKeySize (unat kernel_sign_algorithm)]))"

subsection \<open>The rollback counter store\<close>

text \<open>
  Modelled from the spec: \<^verbatim>\<open>GetStoredVersion\<close>, \<^verbatim>\<open>WriteStoredVersion\<close> and
  \<^verbatim>\<open>LockStoredVersion\<close> are declared in the absent rollback_index.h. Section 6 of the spec
  gives the store as two 16-bit counters, one per slot, with read, write and an idempotent
  lock; a locked counter takes no further writes for the rest of the boot session.
\<close>

record rollback_store =
  version_of :: "version_slot \<Rightarrow> 16 word"
  is_locked :: "version_slot \<Rightarrow> bool"

definition GetStoredVersion :: "rollback_store \<Rightarrow> version_slot \<Rightarrow> 16 word" where
  "GetStoredVersion st slot = version_of st slot"

definition WriteStoredVersion :: "rollback_store \<Rightarrow> version_slot \<Rightarrow> 16 word \<Rightarrow> rollback_store" where
  "WriteStoredVersion st slot v =
     (if is_locked st slot then st else st\<lparr>version_of := (version_of st)(slot := v)\<rparr>)"

definition LockStoredVersion :: "rollback_store \<Rightarrow> version_slot \<Rightarrow> rollback_store" where
  "LockStoredVersion st slot = st\<lparr>is_locked := (is_locked st)(slot := True)\<rparr>"

subsection \<open>VerifyKernelDriver_f\<close>

text \<open>
  \<^verbatim>\<open>kernel_entry\<close> is declared in the absent kernel_image_fw.h. The code tests the three
  counters for zero, compares two priorities and decrements a nonzero tries count, so
  their width plays no part and they are \<open>nat\<close>.
\<close>

record kernel_entry =
  kernel_blob :: blob
  boot_priority :: nat
  boot_tries_remaining :: nat
  boot_success_flag :: nat

text \<open>
  Modelled from the spec: the three return values are macros of the absent
  kernel_image_fw.h; section 4.3 has the recovery value distinct from both slot values.
\<close>

datatype boot_path =
    BOOT_KERNEL_A_CONTINUE
  | BOOT_KERNEL_B_CONTINUE
  | BOOT_KERNEL_RECOVERY_CONTINUE

text \<open>
  The two entries are two objects, reached through \<^verbatim>\<open>try_kernel[i]\<close>: a pointer is the
  name of the entry it points to. The state is what the function can change: the two
  entries, its locals \<^verbatim>\<open>stored_lversion\<close> and \<^verbatim>\<open>kernel_to_boot\<close>, the counter store, and
  the record of collaborator calls. \<^verbatim>\<open>VerifyKernelDriver_f\<close> yields the state at its
  \<^verbatim>\<open>return\<close>; the value it returns in C is the field \<open>kernel_to_boot\<close> of that state.
\<close>

datatype entry_ptr = ptr_kernelA | ptr_kernelB

record driver_state =
  kernelA :: kernel_entry
  kernelB :: kernel_entry
  stored_lversion :: "32 word"
  kernel_to_boot :: boot_path
  store :: rollback_store
  events :: "event list"

definition deref :: "driver_state \<Rightarrow> entry_ptr \<Rightarrow> kernel_entry" where
  "deref s p = (case p of ptr_kernelA \<Rightarrow> kernelA s | ptr_kernelB \<Rightarrow> kernelB s)"

definition assign :: "entry_ptr \<Rightarrow> (kernel_entry \<Rightarrow> kernel_entry) \<Rightarrow> driver_state \<Rightarrow> driver_state" where
  "assign p f s =
     (case p of ptr_kernelA \<Rightarrow> s\<lparr>kernelA := f (kernelA s)\<rparr>
              | ptr_kernelB \<Rightarrow> s\<lparr>kernelB := f (kernelB s)\<rparr>)"

definition call_WriteStoredVersion :: "version_slot \<Rightarrow> 16 word \<Rightarrow> driver_state \<Rightarrow> driver_state" where
  "call_WriteStoredVersion slot v s =
     s\<lparr>store := WriteStoredVersion (store s) slot v,
       events := events s @ [Ev_WriteStoredVersion slot v]\<rparr>"

definition call_LockStoredVersion :: "version_slot \<Rightarrow> driver_state \<Rightarrow> driver_state" where
  "call_LockStoredVersion slot s =
     s\<lparr>store := LockStoredVersion (store s) slot,
       events := events s @ [Ev_LockStoredVersion slot]\<rparr>"

definition call_VerifyKernel ::
  "'k cryptolib \<Rightarrow> blob \<Rightarrow> blob \<Rightarrow> int \<Rightarrow> driver_state \<Rightarrow> verify_kernel_result \<times> driver_state" where
  "call_VerifyKernel env firmware_key_blob blob dev_mode s =
     (case VerifyKernel env firmware_key_blob blob dev_mode of
        (rc, ev) \<Rightarrow> (rc, s\<lparr>events := events s @ ev\<rparr>))"

text \<open>
  One pass through the body of the \<^verbatim>\<open>for\<close> loop. \<open>Leave\<close> is \<^verbatim>\<open>break\<close>; \<open>Next\<close> is
  \<^verbatim>\<open>continue\<close> or the end of the body, both of which go on to \<^verbatim>\<open>i++\<close>.
\<close>

datatype loop_ctl = Leave | Next

definition loop_body ::
  "'k cryptolib \<Rightarrow> blob \<Rightarrow> int \<Rightarrow> entry_ptr list \<Rightarrow> boot_path list \<Rightarrow> 32 word list \<Rightarrow>
     32 word \<Rightarrow> nat \<Rightarrow> driver_state \<Rightarrow> loop_ctl \<times> driver_state" where
  "loop_body env firmware_key_blob dev_mode try_kernel try_kernel_which try_kernel_lversion
       min_lversion i s =
    (case (if boot_success_flag (deref s (try_kernel ! i)) \<noteq> 0 \<or>
              boot_tries_remaining (deref s (try_kernel ! i)) \<noteq> 0
           then (case call_VerifyKernel env firmware_key_blob
                        (kernel_blob (deref s (try_kernel ! i))) dev_mode s of
                   (rc, s') \<Rightarrow> (rc = VERIFY_KERNEL_SUCCESS, s'))
           else (False, s)) of
       (cond, s0) \<Rightarrow>
         if cond then
           let s1 = (if boot_tries_remaining (deref s0 (try_kernel ! i)) > 0
                     then assign (try_kernel ! i)
                            (\<lambda>e. e\<lparr>boot_tries_remaining := boot_tries_remaining e - 1\<rparr>) s0
                     else s0)
           in
             if stored_lversion s1 > try_kernel_lversion ! i then (Next, s1)
             else
               let s2 =
                 (if i = 0 \<and> stored_lversion s1 < try_kernel_lversion ! 1
                  then (case call_VerifyKernel env firmware_key_blob
                               (kernel_blob (deref s1 (try_kernel ! 1))) dev_mode s1 of
                          (rc, s') \<Rightarrow>
                            if rc = VERIFY_KERNEL_SUCCESS
                            then (call_WriteStoredVersion KERNEL_VERSION
                                    (ucast (min_lversion AND 0xFFFF))
                                    (call_WriteStoredVersion KERNEL_KEY_VERSION
                                       (ucast (drop_bit 16 min_lversion)) s'))
                                 \<lparr>stored_lversion := min_lversion\<rparr>
                            else s')
                  else s1)
               in (Leave, s2\<lparr>kernel_to_boot := try_kernel_which ! i\<rparr>)
         else (Next, assign (try_kernel ! i) (\<lambda>e. e\<lparr>boot_priority := 0\<rparr>) s0))"

function driver_loop ::
  "'k cryptolib \<Rightarrow> blob \<Rightarrow> int \<Rightarrow> entry_ptr list \<Rightarrow> boot_path list \<Rightarrow> 32 word list \<Rightarrow>
     32 word \<Rightarrow> nat \<Rightarrow> driver_state \<Rightarrow> driver_state" where
  "driver_loop env firmware_key_blob dev_mode try_kernel try_kernel_which try_kernel_lversion
       min_lversion i s =
    (if i < 2 then
       (case loop_body env firmware_key_blob dev_mode try_kernel try_kernel_which
               try_kernel_lversion min_lversion i s of
          (Leave, s') \<Rightarrow> s'
        | (Next, s') \<Rightarrow>
            driver_loop env firmware_key_blob dev_mode try_kernel try_kernel_which
              try_kernel_lversion min_lversion (i + 1) s')
     else s)"
  by pat_completeness auto
termination
  by (relation "measure (\<lambda>(env, fkb, dev, tk, tw, tl, m, i, s). 2 - i)") auto

declare driver_loop.simps [simp del]

definition VerifyKernelDriver_f ::
  "'k cryptolib \<Rightarrow> blob \<Rightarrow> kernel_entry \<Rightarrow> kernel_entry \<Rightarrow> int \<Rightarrow> rollback_store \<Rightarrow>
     driver_state" where
  "VerifyKernelDriver_f env firmware_key_blob kA kB dev_mode st =
    (case GetLogicalKernelVersion env (kernel_blob kA) of (kernelA_lversion, evA) \<Rightarrow>
     case GetLogicalKernelVersion env (kernel_blob kB) of (kernelB_lversion, evB) \<Rightarrow>
       let min_lversion = Min_u32 kernelA_lversion kernelB_lversion;
           s0 = \<lparr>kernelA = kA, kernelB = kB,
                 stored_lversion = CombineUint16Pair (GetStoredVersion st KERNEL_KEY_VERSION)
                                                     (GetStoredVersion st KERNEL_VERSION),
                 kernel_to_boot = BOOT_KERNEL_RECOVERY_CONTINUE,
                 store = st,
                 events = evA @ evB @ [Ev_GetStoredVersion KERNEL_KEY_VERSION,
                                       Ev_GetStoredVersion KERNEL_VERSION]\<rparr>;
           s1 = (if boot_priority kA \<ge> boot_priority kB
                 then driver_loop env firmware_key_blob dev_mode
                        [ptr_kernelA, ptr_kernelB]
                        [BOOT_KERNEL_A_CONTINUE, BOOT_KERNEL_B_CONTINUE]
                        [kernelA_lversion, kernelB_lversion] min_lversion 0 s0
                 else driver_loop env firmware_key_blob dev_mode
                        [ptr_kernelB, ptr_kernelA]
                        [BOOT_KERNEL_B_CONTINUE, BOOT_KERNEL_A_CONTINUE]
                        [kernelB_lversion, kernelA_lversion] min_lversion 0 s0)
       in call_LockStoredVersion KERNEL_VERSION (call_LockStoredVersion KERNEL_KEY_VERSION s1))"

subsection \<open>Vocabulary for the properties of the driver\<close>

text \<open>
  The conditions the driver tests, named: an entry is eligible when its success flag or
  its tries count is nonzero; it verifies when \<^verbatim>\<open>VerifyKernel\<close> on its blob returns
  \<^verbatim>\<open>VERIFY_KERNEL_SUCCESS\<close>; its logical version is what \<^verbatim>\<open>GetLogicalKernelVersion\<close>
  reads from its blob; the stored version is the combination of the two counters.
\<close>

definition eligible :: "kernel_entry \<Rightarrow> bool" where
  "eligible e \<longleftrightarrow> boot_success_flag e \<noteq> 0 \<or> boot_tries_remaining e \<noteq> 0"

definition verifies :: "'k cryptolib \<Rightarrow> blob \<Rightarrow> int \<Rightarrow> kernel_entry \<Rightarrow> bool" where
  "verifies env firmware_key_blob dev_mode e \<longleftrightarrow>
     fst (VerifyKernel env firmware_key_blob (kernel_blob e) dev_mode) = VERIFY_KERNEL_SUCCESS"

definition lversion :: "'k cryptolib \<Rightarrow> kernel_entry \<Rightarrow> 32 word" where
  "lversion env e = fst (GetLogicalKernelVersion env (kernel_blob e))"

definition stored_version :: "rollback_store \<Rightarrow> 32 word" where
  "stored_version st =
     CombineUint16Pair (version_of st KERNEL_KEY_VERSION) (version_of st KERNEL_VERSION)"

text \<open>
  An entry is selectable when the loop body, on reaching it, would leave the loop with it:
  it is eligible, it verifies, and the stored version is not above its logical version.
  \<open>after_try\<close> is what reaching an entry does to it: a verified entry has a nonzero tries
  count decremented, any other entry has its priority cleared.
\<close>

definition selectable ::
  "'k cryptolib \<Rightarrow> blob \<Rightarrow> int \<Rightarrow> rollback_store \<Rightarrow> kernel_entry \<Rightarrow> bool" where
  "selectable env firmware_key_blob dev_mode st e \<longleftrightarrow>
     eligible e \<and> verifies env firmware_key_blob dev_mode e \<and>
     \<not> stored_version st > lversion env e"

definition decrement_tries :: "kernel_entry \<Rightarrow> kernel_entry" where
  "decrement_tries e =
     (if boot_tries_remaining e > 0
      then e\<lparr>boot_tries_remaining := boot_tries_remaining e - 1\<rparr>
      else e)"

definition after_try :: "'k cryptolib \<Rightarrow> blob \<Rightarrow> int \<Rightarrow> kernel_entry \<Rightarrow> kernel_entry" where
  "after_try env firmware_key_blob dev_mode e =
     (if eligible e \<and> verifies env firmware_key_blob dev_mode e
      then decrement_tries e
      else e\<lparr>boot_priority := 0\<rparr>)"

text \<open>
  The driver writes the counters in one situation: the entry tried first is selectable, the
  stored version is below the logical version of the other entry, and the other entry
  verifies as well.
\<close>

definition raises_floor ::
  "'k cryptolib \<Rightarrow> blob \<Rightarrow> int \<Rightarrow> rollback_store \<Rightarrow> kernel_entry \<Rightarrow> kernel_entry \<Rightarrow> bool" where
  "raises_floor env firmware_key_blob dev_mode st a b \<longleftrightarrow>
     (if boot_priority a \<ge> boot_priority b
      then selectable env firmware_key_blob dev_mode st a \<and>
           stored_version st < lversion env b \<and> verifies env firmware_key_blob dev_mode b
      else selectable env firmware_key_blob dev_mode st b \<and>
           stored_version st < lversion env a \<and> verifies env firmware_key_blob dev_mode a)"

subsection \<open>A concrete image and concrete collaborators\<close>

text \<open>
  Field sizes of a ChromeOS kernel image: an 8-byte magic, 16-bit header fields, a SHA-512
  header checksum, and the configuration block with a 4096-byte command line. The
  collaborators of \<open>test_env\<close> know one algorithm, with 8-byte keys and 4-byte signatures;
  a signature is accepted when its first byte is 1, and every digest is all zero.
\<close>

definition chromeos_layout :: "field \<Rightarrow> nat" where
  "chromeos_layout f =
     (case f of
        f_magic \<Rightarrow> 8
      | f_header_version \<Rightarrow> 2
      | f_header_len \<Rightarrow> 2
      | f_firmware_sign_algorithm \<Rightarrow> 2
      | f_kernel_sign_algorithm \<Rightarrow> 2
      | f_kernel_key_version \<Rightarrow> 2
      | f_header_checksum \<Rightarrow> 64
      | f_kernel_version \<Rightarrow> 2
      | f_options_version \<Rightarrow> 8
      | f_options_cmd_line \<Rightarrow> 4096
      | f_options_kernel_len \<Rightarrow> 8
      | f_options_kernel_load_addr \<Rightarrow> 8
      | f_options_kernel_entry_addr \<Rightarrow> 8)"

definition blob_of :: "8 word list \<Rightarrow> blob" where
  "blob_of xs = (\<lambda>i. if i < length xs then xs ! i else 0)"

definition test_env :: "unit cryptolib" where
  "test_env =
     \<lparr>FIELD_LEN = chromeos_layout,
      KERNEL_MAGIC = blob_of [0x43, 0x48, 0x52, 0x4F, 0x4D, 0x45, 0x4F, 0x53],
      KERNEL_MAGIC_SIZE = 8,
      SHA512_DIGEST_ALGORITHM = 2,
      kNumAlgorithms = 1,
      siglen_map = (\<lambda>a. 4),
      RSAProcessedKeySize = (\<lambda>a. 8),
      RSAPublicKeyFromBuf = (\<lambda>p n. Some ()),
      RSAVerifyBinary_f = (\<lambda>key_blob key buf len sig a. sig 0 = 1),
      RSAVerifyBinaryWithDigest_f = (\<lambda>key_blob key digest sig a. sig 0 = 1),
      DigestBuf = (\<lambda>buf len a i. 0),
      DigestFinal = (\<lambda>a spans i. 0)\<rparr>"

text \<open>
  A kernel image for \<open>test_env\<close>: magic, header version 1, header length 82 (10 bytes of
  fields, the 8-byte key, the 64-byte checksum), both algorithms 0, key version \<open>kkv\<close> at
  offset 16, the key signature at 90 with first byte \<open>sig\<close>, kernel version \<open>kv\<close> at 94, the
  configuration signature at 4224 and the kernel signature at 4228.
\<close>

definition test_kernel :: "8 word \<Rightarrow> 8 word \<Rightarrow> 8 word \<Rightarrow> blob" where
  "test_kernel kkv kv sig =
     (\<lambda>i. if i < 8 then [0x43, 0x48, 0x52, 0x4F, 0x4D, 0x45, 0x4F, 0x53] ! i
          else if i = 8 then 1
          else if i = 10 then 82
          else if i = 16 then kkv
          else if i = 90 then sig
          else if i = 94 then kv
          else if i = 4224 then 1
          else if i = 4228 then 1
          else 0)"

definition test_entry :: "blob \<Rightarrow> nat \<Rightarrow> nat \<Rightarrow> nat \<Rightarrow> kernel_entry" where
  "test_entry b priority tries success =
     \<lparr>kernel_blob = b, boot_priority = priority, boot_tries_remaining = tries,
      boot_success_flag = success\<rparr>"

definition test_store :: "16 word \<Rightarrow> 16 word \<Rightarrow> rollback_store" where
  "test_store kkv kv =
     \<lparr>version_of = (\<lambda>slot. case slot of KERNEL_KEY_VERSION \<Rightarrow> kkv | KERNEL_VERSION \<Rightarrow> kv),
      is_locked = (\<lambda>slot. False)\<rparr>"


section \<open>Properties\<close>

subsection \<open>Reading integers from a blob\<close>

lemma le_value_bound: "le_value bs < 256 ^ length bs"
proof (induction bs)
  case Nil
  show ?case by simp
next
  case (Cons b bs)
  have "unat b < 256" using unsigned_less [of b, where ?'a = nat] by simp
  with Cons show ?case by simp
qed

lemma length_bytes_at [simp]: "length (bytes_at p off n) = n"
  by (simp add: bytes_at_def)

lemma unat_Memcpy_u64: "unat (Memcpy_u64 p off) = le_value (bytes_at p off 8)"
proof -
  have "le_value (bytes_at p off 8) < 256 ^ 8"
    using le_value_bound [of "bytes_at p off 8"] by simp
  then have "le_value (bytes_at p off 8) < 2 ^ LENGTH(64)" by simp
  then show ?thesis
    unfolding Memcpy_u64_def by (simp only: unat_of_nat mod_less)
qed

lemma unat_Memcpy_u16: "unat (Memcpy_u16 p off) = unat (p off) + 256 * unat (p (off + 1))"
proof -
  have b: "bytes_at p off 2 = [p off, p (off + 1)]"
    by (simp add: bytes_at_def upt_rec)
  have "le_value (bytes_at p off 2) < 256 ^ 2"
    using le_value_bound [of "bytes_at p off 2"] by simp
  then have "le_value (bytes_at p off 2) < 2 ^ LENGTH(16)" by simp
  then have "unat (Memcpy_u16 p off) = le_value (bytes_at p off 2)"
    unfolding Memcpy_u16_def by (simp only: unat_of_nat mod_less)
  then show ?thesis by (simp add: b)
qed

lemma Combine_hi: "ucast (drop_bit 16 (CombineUint16Pair msw lsw)) = msw"
  unfolding CombineUint16Pair_def
  by (rule bit_word_eqI) (auto simp: bit_simps dest: bit_imp_le_length)

lemma Combine_lo: "ucast (CombineUint16Pair msw lsw) = lsw"
  unfolding CombineUint16Pair_def
  by (rule bit_word_eqI) (auto simp: bit_simps dest: bit_imp_le_length)

subsection \<open>The loop of the driver, pass by pass\<close>

lemma deref_assign_same [simp]: "deref (assign p f s) p = f (deref s p)"
  by (cases p) (simp_all add: deref_def assign_def)

lemma deref_assign_other [simp]: "p \<noteq> q \<Longrightarrow> deref (assign p f s) q = deref s q"
  by (cases p; cases q) (simp_all add: deref_def assign_def)

lemma assign_frame [simp]:
  "stored_lversion (assign p f s) = stored_lversion s"
  "kernel_to_boot (assign p f s) = kernel_to_boot s"
  "store (assign p f s) = store s"
  "events (assign p f s) = events s"
  by (cases p; simp add: assign_def)+

lemma call_VerifyKernel_eq:
  "call_VerifyKernel env fkb b dev s =
     (fst (VerifyKernel env fkb b dev), s\<lparr>events := events s @ snd (VerifyKernel env fkb b dev)\<rparr>)"
  by (simp add: call_VerifyKernel_def case_prod_beta)

lemma deref_events_update [simp]: "deref (s\<lparr>events := ev\<rparr>) p = deref s p"
  by (cases p) (simp_all add: deref_def)

lemma deref_frame [simp]:
  "deref (s\<lparr>kernel_to_boot := k\<rparr>) p = deref s p"
  "deref (s\<lparr>stored_lversion := v\<rparr>) p = deref s p"
  "deref (s\<lparr>store := st\<rparr>) p = deref s p"
  by (cases p; simp add: deref_def)+

lemma call_Write_frame [simp]:
  "deref (call_WriteStoredVersion slot v s) p = deref s p"
  "stored_lversion (call_WriteStoredVersion slot v s) = stored_lversion s"
  "kernel_to_boot (call_WriteStoredVersion slot v s) = kernel_to_boot s"
  by (simp_all add: call_WriteStoredVersion_def)

lemma call_Lock_frame [simp]:
  "deref (call_LockStoredVersion slot s) p = deref s p"
  "stored_lversion (call_LockStoredVersion slot s) = stored_lversion s"
  "kernel_to_boot (call_LockStoredVersion slot s) = kernel_to_boot s"
  "kernelA (call_LockStoredVersion slot s) = kernelA s"
  "kernelB (call_LockStoredVersion slot s) = kernelB s"
  by (simp_all add: call_LockStoredVersion_def)

lemma driver_loop_2: "driver_loop env fkb dev tk tw tv m (Suc (Suc 0)) s = s"
  by (subst driver_loop.simps) simp

lemma driver_loop_1:
  "driver_loop env fkb dev tk tw tv m (Suc 0) s = snd (loop_body env fkb dev tk tw tv m (Suc 0) s)"
  by (subst driver_loop.simps) (simp add: driver_loop_2 split: prod.splits loop_ctl.splits)

lemma driver_loop_unroll:
  "driver_loop env fkb dev tk tw tv m 0 s =
     (case loop_body env fkb dev tk tw tv m 0 s of
        (Leave, s') \<Rightarrow> s'
      | (Next, s') \<Rightarrow> snd (loop_body env fkb dev tk tw tv m (Suc 0) s'))"
  by (subst driver_loop.simps) (simp add: driver_loop_1 split: prod.splits loop_ctl.splits)

lemma loop_kernel_to_boot:
  assumes "p \<noteq> q"
  shows "kernel_to_boot (driver_loop env fkb dev [p, q] [w1, w2] [l1, l2] m 0 s) =
     (if eligible (deref s p) \<and> verifies env fkb dev (deref s p) \<and> \<not> stored_lversion s > l1 then w1
      else if eligible (deref s q) \<and> verifies env fkb dev (deref s q) \<and> \<not> stored_lversion s > l2 then w2
      else kernel_to_boot s)"
  using assms
  by (simp add: driver_loop_unroll loop_body_def call_VerifyKernel_eq eligible_def verifies_def Let_def)


lemma loop_first_entry:
  assumes "p \<noteq> q"
  shows "deref (driver_loop env fkb dev [p, q] [w1, w2] [l1, l2] m 0 s) p =
     (if eligible (deref s p) \<and> verifies env fkb dev (deref s p)
      then (if boot_tries_remaining (deref s p) > 0
            then (deref s p)\<lparr>boot_tries_remaining := boot_tries_remaining (deref s p) - 1\<rparr>
            else deref s p)
      else (deref s p)\<lparr>boot_priority := 0\<rparr>)"
  using assms
  by (simp add: driver_loop_unroll loop_body_def call_VerifyKernel_eq eligible_def verifies_def Let_def)

lemma loop_second_entry:
  assumes "p \<noteq> q"
  shows "deref (driver_loop env fkb dev [p, q] [w1, w2] [l1, l2] m 0 s) q =
     (if eligible (deref s p) \<and> verifies env fkb dev (deref s p) \<and> \<not> stored_lversion s > l1
      then deref s q
      else if eligible (deref s q) \<and> verifies env fkb dev (deref s q)
      then (if boot_tries_remaining (deref s q) > 0
            then (deref s q)\<lparr>boot_tries_remaining := boot_tries_remaining (deref s q) - 1\<rparr>
            else deref s q)
      else (deref s q)\<lparr>boot_priority := 0\<rparr>)"
  using assms
  by (simp add: driver_loop_unroll loop_body_def call_VerifyKernel_eq eligible_def verifies_def Let_def)


lemma loop_store:
  assumes "p \<noteq> q"
  shows "store (driver_loop env fkb dev [p, q] [w1, w2] [l1, l2] m 0 s) =
     (if eligible (deref s p) \<and> verifies env fkb dev (deref s p) \<and> \<not> stored_lversion s > l1 \<and>
         stored_lversion s < l2 \<and> verifies env fkb dev (deref s q)
      then WriteStoredVersion
             (WriteStoredVersion (store s) KERNEL_KEY_VERSION (ucast (drop_bit 16 m)))
             KERNEL_VERSION (ucast (m AND 0xFFFF))
      else store s)"
  using assms
  by (simp add: driver_loop_unroll loop_body_def call_VerifyKernel_eq eligible_def verifies_def Let_def
        call_WriteStoredVersion_def)

lemma writes_of_append [simp]: "writes_of (xs @ ys) = writes_of xs @ writes_of ys"
  by (induction xs rule: writes_of.induct) simp_all

lemma locks_of_append [simp]: "locks_of (xs @ ys) = locks_of xs @ locks_of ys"
  by (induction xs rule: locks_of.induct) simp_all

lemma VerifyKernelHeader_no_store:
  "writes_of (snd (snd (VerifyKernelHeader env fkb hb dev out))) = []"
  "locks_of (snd (snd (VerifyKernelHeader env fkb hb dev out))) = []"
  by (simp_all add: VerifyKernelHeader_def Let_def)

lemma VerifyKernelConfig_no_store:
  "writes_of (snd (snd (VerifyKernelConfig env k cb a l))) = []"
  "locks_of (snd (snd (VerifyKernelConfig env k cb a l))) = []"
  by (simp_all add: VerifyKernelConfig_def Let_def)

lemma VerifyKernelData_no_store:
  "writes_of (snd (VerifyKernelData env k cs ds l a)) = []"
  "locks_of (snd (VerifyKernelData env k cs ds l a)) = []"
  by (simp_all add: VerifyKernelData_def Let_def)

lemma VerifyKernel_no_store:
  "writes_of (snd (VerifyKernel env fkb b dev)) = []"
  "locks_of (snd (VerifyKernel env fkb b dev)) = []"
  by (simp_all add: VerifyKernel_def Let_def case_prod_beta VerifyKernelHeader_no_store
        VerifyKernelConfig_no_store VerifyKernelData_no_store)

lemma GetLogicalKernelVersion_no_store:
  "writes_of (snd (GetLogicalKernelVersion env b)) = []"
  "locks_of (snd (GetLogicalKernelVersion env b)) = []"
  by (simp_all add: GetLogicalKernelVersion_def Let_def)

lemma loop_writes:
  assumes "p \<noteq> q"
  shows "writes_of (events (driver_loop env fkb dev [p, q] [w1, w2] [l1, l2] m 0 s)) =
     writes_of (events s) @
     (if eligible (deref s p) \<and> verifies env fkb dev (deref s p) \<and> \<not> stored_lversion s > l1 \<and>
         stored_lversion s < l2 \<and> verifies env fkb dev (deref s q)
      then [(KERNEL_KEY_VERSION, ucast (drop_bit 16 m)), (KERNEL_VERSION, ucast (m AND 0xFFFF))]
      else [])"
  using assms
  by (simp add: driver_loop_unroll loop_body_def call_VerifyKernel_eq eligible_def verifies_def Let_def
        call_WriteStoredVersion_def VerifyKernel_no_store)

lemma loop_locks:
  assumes "p \<noteq> q"
  shows "locks_of (events (driver_loop env fkb dev [p, q] [w1, w2] [l1, l2] m 0 s)) =
     locks_of (events s)"
  using assms
  by (simp add: driver_loop_unroll loop_body_def call_VerifyKernel_eq eligible_def verifies_def Let_def
        call_WriteStoredVersion_def VerifyKernel_no_store)



lemma driver_unfold:
  "VerifyKernelDriver_f env fkb a b dev st =
     call_LockStoredVersion KERNEL_VERSION (call_LockStoredVersion KERNEL_KEY_VERSION
       (if boot_priority a \<ge> boot_priority b
        then driver_loop env fkb dev [ptr_kernelA, ptr_kernelB]
               [BOOT_KERNEL_A_CONTINUE, BOOT_KERNEL_B_CONTINUE]
               [lversion env a, lversion env b] (Min_u32 (lversion env a) (lversion env b)) 0
               \<lparr>kernelA = a, kernelB = b, stored_lversion = stored_version st,
                kernel_to_boot = BOOT_KERNEL_RECOVERY_CONTINUE, store = st,
                events = snd (GetLogicalKernelVersion env (kernel_blob a)) @
                         snd (GetLogicalKernelVersion env (kernel_blob b)) @
                         [Ev_GetStoredVersion KERNEL_KEY_VERSION,
                          Ev_GetStoredVersion KERNEL_VERSION]\<rparr>
        else driver_loop env fkb dev [ptr_kernelB, ptr_kernelA]
               [BOOT_KERNEL_B_CONTINUE, BOOT_KERNEL_A_CONTINUE]
               [lversion env b, lversion env a] (Min_u32 (lversion env a) (lversion env b)) 0
               \<lparr>kernelA = a, kernelB = b, stored_lversion = stored_version st,
                kernel_to_boot = BOOT_KERNEL_RECOVERY_CONTINUE, store = st,
                events = snd (GetLogicalKernelVersion env (kernel_blob a)) @
                         snd (GetLogicalKernelVersion env (kernel_blob b)) @
                         [Ev_GetStoredVersion KERNEL_KEY_VERSION,
                          Ev_GetStoredVersion KERNEL_VERSION]\<rparr>))"
  by (simp add: VerifyKernelDriver_f_def case_prod_beta Let_def lversion_def stored_version_def
        GetStoredVersion_def)

lemma kernelA_deref: "kernelA s = deref s ptr_kernelA"
  and kernelB_deref: "kernelB s = deref s ptr_kernelB"
  by (simp_all add: deref_def)

lemma driver_kernel_to_boot:
  "kernel_to_boot (VerifyKernelDriver_f env fkb a b dev st) =
     (if boot_priority a \<ge> boot_priority b
      then (if selectable env fkb dev st a then BOOT_KERNEL_A_CONTINUE
            else if selectable env fkb dev st b then BOOT_KERNEL_B_CONTINUE
            else BOOT_KERNEL_RECOVERY_CONTINUE)
      else (if selectable env fkb dev st b then BOOT_KERNEL_B_CONTINUE
            else if selectable env fkb dev st a then BOOT_KERNEL_A_CONTINUE
            else BOOT_KERNEL_RECOVERY_CONTINUE))"
  by (simp add: driver_unfold loop_kernel_to_boot selectable_def deref_def)

lemma driver_kernelA:
  "kernelA (VerifyKernelDriver_f env fkb a b dev st) =
     (if boot_priority a \<ge> boot_priority b \<or> \<not> selectable env fkb dev st b
      then after_try env fkb dev a else a)"
proof (cases "boot_priority a \<ge> boot_priority b")
  case True
  then show ?thesis
    unfolding kernelA_deref
    by (simp add: driver_unfold loop_first_entry)
       (simp add: after_try_def decrement_tries_def deref_def)
next
  case False
  then show ?thesis
    unfolding kernelA_deref
    by (simp add: driver_unfold loop_second_entry)
       (auto simp: selectable_def after_try_def decrement_tries_def deref_def)
qed

lemma driver_kernelB:
  "kernelB (VerifyKernelDriver_f env fkb a b dev st) =
     (if boot_priority a < boot_priority b \<or> \<not> selectable env fkb dev st a
      then after_try env fkb dev b else b)"
proof (cases "boot_priority a \<ge> boot_priority b")
  case True
  then show ?thesis
    unfolding kernelB_deref
    by (simp add: driver_unfold loop_second_entry)
       (auto simp: selectable_def after_try_def decrement_tries_def deref_def)
next
  case False
  then show ?thesis
    unfolding kernelB_deref
    by (simp add: driver_unfold loop_first_entry)
       (simp add: after_try_def decrement_tries_def deref_def)
qed

subsection \<open>The concrete image under the concrete collaborators\<close>

lemma test_magic:
  "\<not> SafeMemcmp (test_kernel k v s) (KERNEL_MAGIC test_env) (KERNEL_MAGIC_SIZE test_env)"
  by (simp add: SafeMemcmp_def bytes_at_def test_env_def test_kernel_def blob_of_def upt_rec)

lemma test_checksum:
  "\<not> SafeMemcmp (\<lambda>i. 0) (ptr_add (ptr_add (test_kernel k v s) 8) 18) 64"
  by (simp add: SafeMemcmp_def bytes_at_def test_kernel_def ptr_add_def upt_rec)

lemma test_header_fields:
  "unat (Memcpy_u16 (ptr_add (test_kernel k v s) 8) 2) = 82"
  "unat (Memcpy_u16 (ptr_add (test_kernel k v s) 8) 4) = 0"
  "unat (Memcpy_u16 (ptr_add (test_kernel k v s) 8) 6) = 0"
  by (simp_all add: unat_Memcpy_u16 ptr_add_def test_kernel_def)

lemma test_VerifyKernelHeader:
  "VerifyKernelHeader test_env fkb (ptr_add (test_kernel k v s) 8) dev out =
     (if dev = 0 \<and> s \<noteq> 1 then VERIFY_KERNEL_KEY_SIGNATURE_FAILED else VERIFY_KERNEL_SUCCESS,
      out\<lparr>firmware_algorithm := 0, kernel_algorithm := 0, kernel_header_len := 82\<rparr>,
      [Ev_RSAProcessedKeySize 0, Ev_RSAProcessedKeySize 0, Ev_DigestBuf 18] @
      (if dev = 0 then [Ev_RSAVerifyBinary_f 0] else []))"
proof -
  have env:
    "FIELD_LEN test_env = chromeos_layout" "kNumAlgorithms test_env = 1"
    "RSAProcessedKeySize test_env = (\<lambda>a. 8)" "SHA512_DIGEST_ALGORITHM test_env = 2"
    "DigestBuf test_env = (\<lambda>buf len a i. 0)"
    "RSAVerifyBinary_f test_env = (\<lambda>key_blob key buf len sig a. sig 0 = 1)"
    by (simp_all add: test_env_def)
  have sig: "ptr_add (ptr_add (test_kernel k v s) 8) 82 0 = s"
    by (simp add: ptr_add_def test_kernel_def)
  show ?thesis
    unfolding VerifyKernelHeader_def Let_def env base_header_checksum_offset_def
    by (simp add: chromeos_layout_def test_header_fields test_checksum sig)
qed

lemma test_VerifyKernel:
  "fst (VerifyKernel test_env fkb (test_kernel k v s) dev) =
     (if dev = 0 \<and> s \<noteq> 1 then VERIFY_KERNEL_KEY_SIGNATURE_FAILED else VERIFY_KERNEL_SUCCESS)"
proof -
  have env:
    "FIELD_LEN test_env = chromeos_layout" "KERNEL_MAGIC_SIZE test_env = 8"
    "RSAProcessedKeySize test_env = (\<lambda>a. 8)" "siglen_map test_env = (\<lambda>a. 4)"
    "RSAPublicKeyFromBuf test_env = (\<lambda>p n. Some ())"
    "DigestFinal test_env = (\<lambda>a spans i. 0)"
    "RSAVerifyBinary_f test_env = (\<lambda>key_blob key buf len sig a. sig 0 = 1)"
    "RSAVerifyBinaryWithDigest_f test_env = (\<lambda>key_blob key digest sig a. sig 0 = 1)"
    by (simp_all add: test_env_def)
  have magic: "\<not> SafeMemcmp (test_kernel k v s) (KERNEL_MAGIC test_env) 8"
    using test_magic [of k v s] by (simp add: env)
  have kcfl: "KERNEL_CONFIG_FIELD_LEN test_env = 4130"
    by (simp add: KERNEL_CONFIG_FIELD_LEN_def env chromeos_layout_def)
  have sigs:
    "ptr_add (ptr_add (ptr_add (test_kernel k v s) 8) 86) 4130 0 = 1"
    "ptr_add (ptr_add (ptr_add (test_kernel k v s) 8) 86) 4134 0 = 1"
    by (simp_all add: ptr_add_def test_kernel_def)
  show ?thesis
    unfolding VerifyKernel_def Let_def env
    by (simp add: magic test_VerifyKernelHeader VerifyKernelConfig_def VerifyKernelData_def
          kcfl env sigs Let_def)
qed

lemma test_lversion:
  "fst (GetLogicalKernelVersion test_env (test_kernel k v s)) =
     CombineUint16Pair (ucast k) (ucast v)"
proof -
  have env:
    "FIELD_LEN test_env = chromeos_layout" "kNumAlgorithms test_env = 1"
    "RSAProcessedKeySize test_env = (\<lambda>a. 8)" "siglen_map test_env = (\<lambda>a. 4)"
    by (simp_all add: test_env_def)
  have f: "unat (Memcpy_u16 (test_kernel k v s) 12) = 0"
          "unat (Memcpy_u16 (test_kernel k v s) 14) = 0"
    by (simp_all add: unat_Memcpy_u16 test_kernel_def)
  have "unat (Memcpy_u16 (test_kernel k v s) 16) = unat k"
       "unat (Memcpy_u16 (test_kernel k v s) 94) = unat v"
    by (simp_all add: unat_Memcpy_u16 test_kernel_def)
  moreover have "unat k < 2 ^ 16" "unat v < 2 ^ 16"
    using unsigned_less [of k, where ?'a = nat] unsigned_less [of v, where ?'a = nat]
    by simp_all
  ultimately have g: "Memcpy_u16 (test_kernel k v s) 16 = ucast k"
                     "Memcpy_u16 (test_kernel k v s) 94 = ucast v"
    by (simp_all add: word_eq_iff_unsigned [where ?'a = nat] unsigned_ucast_eq take_bit_nat_eq_self)
  show ?thesis
    unfolding GetLogicalKernelVersion_def Let_def env
    by (simp add: chromeos_layout_def f g)
qed

lemma test_entry_fields [simp]:
  "kernel_blob (test_entry blob p t f) = blob"
  "boot_priority (test_entry blob p t f) = p"
  "boot_tries_remaining (test_entry blob p t f) = t"
  "boot_success_flag (test_entry blob p t f) = f"
  by (simp_all add: test_entry_def)

lemma test_eligible: "eligible (test_entry blob p t f) \<longleftrightarrow> f \<noteq> 0 \<or> t \<noteq> 0"
  by (simp add: eligible_def)

lemma test_verifies:
  "verifies test_env fkb dev (test_entry (test_kernel k v s) p t f) \<longleftrightarrow> dev \<noteq> 0 \<or> s = 1"
  by (simp add: verifies_def test_VerifyKernel)

lemma test_entry_lversion:
  "lversion test_env (test_entry (test_kernel k v s) p t f) =
     CombineUint16Pair (ucast k) (ucast v)"
  by (simp add: lversion_def test_lversion)

lemma test_stored_version: "stored_version (test_store kkv kv) = CombineUint16Pair kkv kv"
  by (simp add: stored_version_def test_store_def)

lemmas test_simps = test_eligible test_verifies test_entry_lversion test_stored_version
  CombineUint16Pair_def selectable_def after_try_def decrement_tries_def

subsection \<open>VerifyKernelHeader\<close>

text \<open>
  C5. When the firmware signing algorithm or the kernel signing algorithm read from the
  header is at or above \<^verbatim>\<open>kNumAlgorithms\<close>, \<^verbatim>\<open>VerifyKernelHeader\<close> returns
  \<^verbatim>\<open>VERIFY_KERNEL_INVALID_ALGORITHM\<close>, leaves the three output locations as they were, and
  has called no collaborator: no key-size or signature-length table was indexed, no digest
  computed and no signature verified.
\<close>

theorem VerifyKernelHeader_invalid_algorithm:
  assumes "kNumAlgorithms env \<le>
             unat (Memcpy_u16 header_blob
                     (FIELD_LEN env f_header_version + FIELD_LEN env f_header_len)) \<or>
           kNumAlgorithms env \<le>
             unat (Memcpy_u16 header_blob
                     (FIELD_LEN env f_header_version + FIELD_LEN env f_header_len +
                      FIELD_LEN env f_firmware_sign_algorithm))"
  shows "VerifyKernelHeader env firmware_key_blob header_blob dev_mode out =
           (VERIFY_KERNEL_INVALID_ALGORITHM, out, [])"
proof (cases "kNumAlgorithms env \<le>
             unat (Memcpy_u16 header_blob
                     (FIELD_LEN env f_header_version + FIELD_LEN env f_header_len))")
  case True
  then show ?thesis by (simp add: VerifyKernelHeader_def Let_def)
next
  case False
  with assms show ?thesis by (simp add: VerifyKernelHeader_def Let_def)
qed

theorem VerifyKernelHeader_invalid_algorithm_witness:
  "(kNumAlgorithms test_env \<le>
      unat (Memcpy_u16 (blob_of [1, 0, 82, 0, 7, 0, 0, 0])
              (FIELD_LEN test_env f_header_version + FIELD_LEN test_env f_header_len))) \<and>
   VerifyKernelHeader test_env (\<lambda>i. 0) (blob_of [1, 0, 82, 0, 7, 0, 0, 0]) 0
       \<lparr>firmware_algorithm = 11, kernel_algorithm = 12, kernel_header_len = 13\<rparr> =
     (VERIFY_KERNEL_INVALID_ALGORITHM,
      \<lparr>firmware_algorithm = 11, kernel_algorithm = 12, kernel_header_len = 13\<rparr>, [])"
proof -
  have h: "kNumAlgorithms test_env \<le>
      unat (Memcpy_u16 (blob_of [1, 0, 82, 0, 7, 0, 0, 0])
              (FIELD_LEN test_env f_header_version + FIELD_LEN test_env f_header_len))"
    by (simp add: test_env_def chromeos_layout_def unat_Memcpy_u16 blob_of_def)
  show ?thesis
    by (rule conjI [OF h VerifyKernelHeader_invalid_algorithm [OF disjI1 [OF h]]])
qed

text \<open>
  C4. With \<^verbatim>\<open>dev_mode\<close> set, \<^verbatim>\<open>VerifyKernelHeader\<close> gives what it gives with
  \<^verbatim>\<open>dev_mode\<close> unset on the same key, header and output locations, with one difference:
  where the run without \<^verbatim>\<open>dev_mode\<close> returns \<^verbatim>\<open>VERIFY_KERNEL_KEY_SIGNATURE_FAILED\<close>, the run
  with it returns success. Every other result code and the contents of the three output
  locations are the same, and the collaborator calls are the same but for the signature
  verification, which the run with \<^verbatim>\<open>dev_mode\<close> leaves out.
\<close>

theorem dev_mode_skips_key_signature_only:
  assumes "dev_mode \<noteq> 0"
  shows "VerifyKernelHeader env firmware_key_blob header_blob dev_mode out =
           (case VerifyKernelHeader env firmware_key_blob header_blob 0 out of
              (rc, out', ev) \<Rightarrow>
                (if rc = VERIFY_KERNEL_KEY_SIGNATURE_FAILED then VERIFY_KERNEL_SUCCESS else rc,
                 out',
                 filter (\<lambda>e. \<not> is_signature_check e) ev))"
proof -
  define fsa where "fsa = unat (Memcpy_u16 header_blob
                     (FIELD_LEN env f_header_version + FIELD_LEN env f_header_len))"
  define ksa where "ksa = unat (Memcpy_u16 header_blob
                     (FIELD_LEN env f_header_version + FIELD_LEN env f_header_len +
                      FIELD_LEN env f_firmware_sign_algorithm))"
  define hl where "hl = unat (Memcpy_u16 header_blob (FIELD_LEN env f_header_version))"
  define len_ok where "len_ok \<longleftrightarrow>
     hl = base_header_checksum_offset env + RSAProcessedKeySize env ksa +
          FIELD_LEN env f_header_checksum"
  define sum_bad where "sum_bad \<longleftrightarrow>
     SafeMemcmp (DigestBuf env header_blob (hl - FIELD_LEN env f_header_checksum)
                   (SHA512_DIGEST_ALGORITHM env))
       (ptr_add header_blob (base_header_checksum_offset env + RSAProcessedKeySize env ksa))
       (FIELD_LEN env f_header_checksum)"
  define sig_ok where "sig_ok \<longleftrightarrow>
     RSAVerifyBinary_f env (Some firmware_key_blob) None header_blob hl
       (ptr_add header_blob hl) fsa"
  define out1 where "out1 = out\<lparr>firmware_algorithm := fsa, kernel_algorithm := ksa\<rparr>"
  define out2 where "out2 = out1\<lparr>kernel_header_len := hl\<rparr>"
  define ev2 where "ev2 = [Ev_RSAProcessedKeySize ksa, Ev_RSAProcessedKeySize fsa,
                           Ev_DigestBuf (hl - FIELD_LEN env f_header_checksum)]"
  note defs = fsa_def [symmetric] ksa_def [symmetric] hl_def [symmetric]
    len_ok_def [symmetric] sum_bad_def [symmetric] sig_ok_def [symmetric]
  have with_dev: "VerifyKernelHeader env firmware_key_blob header_blob dev_mode out =
     (if kNumAlgorithms env \<le> fsa \<or> kNumAlgorithms env \<le> ksa
      then (VERIFY_KERNEL_INVALID_ALGORITHM, out, [])
      else if \<not> len_ok
      then (VERIFY_KERNEL_INVALID_IMAGE, out1,
            [Ev_RSAProcessedKeySize ksa, Ev_RSAProcessedKeySize fsa])
      else if sum_bad then (VERIFY_KERNEL_INVALID_IMAGE, out2, ev2)
      else (VERIFY_KERNEL_SUCCESS, out2, ev2))"
    using assms unfolding VerifyKernelHeader_def Let_def defs out1_def out2_def ev2_def by simp
  have without_dev: "VerifyKernelHeader env firmware_key_blob header_blob 0 out =
     (if kNumAlgorithms env \<le> fsa \<or> kNumAlgorithms env \<le> ksa
      then (VERIFY_KERNEL_INVALID_ALGORITHM, out, [])
      else if \<not> len_ok
      then (VERIFY_KERNEL_INVALID_IMAGE, out1,
            [Ev_RSAProcessedKeySize ksa, Ev_RSAProcessedKeySize fsa])
      else if sum_bad then (VERIFY_KERNEL_INVALID_IMAGE, out2, ev2)
      else (if sig_ok then VERIFY_KERNEL_SUCCESS else VERIFY_KERNEL_KEY_SIGNATURE_FAILED,
            out2, ev2 @ [Ev_RSAVerifyBinary_f fsa]))"
    unfolding VerifyKernelHeader_def Let_def defs out1_def out2_def ev2_def by simp
  show ?thesis unfolding with_dev without_dev by (simp add: ev2_def)
qed

theorem dev_mode_skips_key_signature_only_witness:
  "(1 :: int) \<noteq> 0 \<and>
   VerifyKernelHeader test_env (\<lambda>i. 0) (ptr_add (test_kernel 3 5 0) 8) 0
       \<lparr>firmware_algorithm = 11, kernel_algorithm = 12, kernel_header_len = 13\<rparr> =
     (VERIFY_KERNEL_KEY_SIGNATURE_FAILED,
      \<lparr>firmware_algorithm = 0, kernel_algorithm = 0, kernel_header_len = 82\<rparr>,
      [Ev_RSAProcessedKeySize 0, Ev_RSAProcessedKeySize 0, Ev_DigestBuf 18,
       Ev_RSAVerifyBinary_f 0]) \<and>
   VerifyKernelHeader test_env (\<lambda>i. 0) (ptr_add (test_kernel 3 5 0) 8) 1
       \<lparr>firmware_algorithm = 11, kernel_algorithm = 12, kernel_header_len = 13\<rparr> =
     (VERIFY_KERNEL_SUCCESS,
      \<lparr>firmware_algorithm = 0, kernel_algorithm = 0, kernel_header_len = 82\<rparr>,
      [Ev_RSAProcessedKeySize 0, Ev_RSAProcessedKeySize 0, Ev_DigestBuf 18])"
proof -
  have h: "(1 :: int) \<noteq> 0" by simp
  have without_dev:
    "VerifyKernelHeader test_env (\<lambda>i. 0) (ptr_add (test_kernel 3 5 0) 8) 0
       \<lparr>firmware_algorithm = 11, kernel_algorithm = 12, kernel_header_len = 13\<rparr> =
     (VERIFY_KERNEL_KEY_SIGNATURE_FAILED,
      \<lparr>firmware_algorithm = 0, kernel_algorithm = 0, kernel_header_len = 82\<rparr>,
      [Ev_RSAProcessedKeySize 0, Ev_RSAProcessedKeySize 0, Ev_DigestBuf 18,
       Ev_RSAVerifyBinary_f 0])"
    by (simp add: test_VerifyKernelHeader)
  show ?thesis
    using h without_dev
      dev_mode_skips_key_signature_only [OF h, of test_env "\<lambda>i. 0"
        "ptr_add (test_kernel 3 5 0) 8"
        "\<lparr>firmware_algorithm = 11, kernel_algorithm = 12, kernel_header_len = 13\<rparr>"]
    by simp
qed

subsection \<open>VerifyKernelConfig\<close>

text \<open>
  C6. \<^verbatim>\<open>VerifyKernelConfig\<close> makes one collaborator call, the signature verification over the
  configuration region. When that fails it returns
  \<^verbatim>\<open>VERIFY_KERNEL_CONFIG_SIGNATURE_FAILED\<close> and the \<^verbatim>\<open>kernel_len\<close> output location holds what
  it held before the call. When it succeeds the result is success and \<^verbatim>\<open>kernel_len\<close> holds the
  64-bit value of the eight bytes that follow the kernel version, the options version and the
  command line in the configuration region; with a length field of eight bytes or more, these
  bytes lie inside the region the signature was verified over.
\<close>

theorem VerifyKernelConfig_kernel_len:
  "(case VerifyKernelConfig env kernel_sign_key config_blob algorithm kernel_len of
      (rc, kernel_len', ev) \<Rightarrow>
        ev = [Ev_RSAVerifyBinary_f algorithm] \<and>
        (if RSAVerifyBinary_f env None kernel_sign_key config_blob (KERNEL_CONFIG_FIELD_LEN env)
              (ptr_add config_blob (KERNEL_CONFIG_FIELD_LEN env)) algorithm
         then rc = VERIFY_KERNEL_SUCCESS \<and>
              unat kernel_len' =
                le_value (bytes_at config_blob
                            (FIELD_LEN env f_kernel_version + FIELD_LEN env f_options_version +
                             FIELD_LEN env f_options_cmd_line) 8)
         else rc = VERIFY_KERNEL_CONFIG_SIGNATURE_FAILED \<and> kernel_len' = kernel_len)) \<and>
   (8 \<le> FIELD_LEN env f_options_kernel_len \<longrightarrow>
      FIELD_LEN env f_kernel_version + FIELD_LEN env f_options_version +
      FIELD_LEN env f_options_cmd_line + 8 \<le> KERNEL_CONFIG_FIELD_LEN env)"
  by (simp add: VerifyKernelConfig_def Let_def unat_Memcpy_u64 KERNEL_CONFIG_FIELD_LEN_def)

theorem VerifyKernelConfig_kernel_len_witness:
  "8 \<le> FIELD_LEN test_env f_options_kernel_len \<and>
   FIELD_LEN test_env f_kernel_version + FIELD_LEN test_env f_options_version +
     FIELD_LEN test_env f_options_cmd_line + 8 \<le> KERNEL_CONFIG_FIELD_LEN test_env \<and>
   fst (VerifyKernelConfig test_env (Some ())
          (\<lambda>i. if i = 4106 then 16 else if i = 4130 then 1 else 0) 0 99) =
     VERIFY_KERNEL_SUCCESS \<and>
   unat (fst (snd (VerifyKernelConfig test_env (Some ())
          (\<lambda>i. if i = 4106 then 16 else if i = 4130 then 1 else 0) 0 99))) = 16 \<and>
   fst (VerifyKernelConfig test_env (Some ())
          (\<lambda>i. if i = 4106 then 16 else if i = 4130 then 7 else 0) 0 99) =
     VERIFY_KERNEL_CONFIG_SIGNATURE_FAILED \<and>
   fst (snd (VerifyKernelConfig test_env (Some ())
          (\<lambda>i. if i = 4106 then 16 else if i = 4130 then 7 else 0) 0 99)) = 99"
proof -
  have env:
    "FIELD_LEN test_env = chromeos_layout"
    "RSAVerifyBinary_f test_env = (\<lambda>key_blob key buf len sig a. sig 0 = 1)"
    by (simp_all add: test_env_def)
  have kcfl: "KERNEL_CONFIG_FIELD_LEN test_env = 4130"
    by (simp add: KERNEL_CONFIG_FIELD_LEN_def env chromeos_layout_def)
  have len: "le_value (bytes_at (\<lambda>i. if i = 4106 then 16 else if i = 4130 then 1 else 0)
                         4106 8) = 16"
    by (simp add: bytes_at_def upt_rec)
  show ?thesis
    using
      VerifyKernelConfig_kernel_len [where env = test_env and kernel_sign_key = "Some ()"
        and config_blob = "\<lambda>i. if i = 4106 then 16 else if i = 4130 then 1 else 0"
        and algorithm = 0 and kernel_len = 99]
      VerifyKernelConfig_kernel_len [where env = test_env and kernel_sign_key = "Some ()"
        and config_blob = "\<lambda>i. if i = 4106 then 16 else if i = 4130 then 7 else 0"
        and algorithm = 0 and kernel_len = 99]
    by (simp add: case_prod_beta env kcfl chromeos_layout_def ptr_add_def len)
qed

subsection \<open>VerifyKernelDriver_f\<close>


lemma call_Lock_store:
  "store (call_LockStoredVersion slot s) = LockStoredVersion (store s) slot"
  "events (call_LockStoredVersion slot s) = events s @ [Ev_LockStoredVersion slot]"
  by (simp_all add: call_LockStoredVersion_def)

lemma driver_store:
  "store (VerifyKernelDriver_f env fkb a b dev st) =
     LockStoredVersion (LockStoredVersion
       (if raises_floor env fkb dev st a b
        then WriteStoredVersion
               (WriteStoredVersion st KERNEL_KEY_VERSION
                  (ucast (drop_bit 16 (Min_u32 (lversion env a) (lversion env b)))))
               KERNEL_VERSION (ucast (Min_u32 (lversion env a) (lversion env b) AND 0xFFFF))
        else st) KERNEL_KEY_VERSION) KERNEL_VERSION"
  by (simp add: driver_unfold call_Lock_store loop_store)
     (auto simp: raises_floor_def selectable_def deref_def)

lemma driver_writes:
  "writes_of (events (VerifyKernelDriver_f env fkb a b dev st)) =
     (if raises_floor env fkb dev st a b
      then [(KERNEL_KEY_VERSION, ucast (drop_bit 16 (Min_u32 (lversion env a) (lversion env b)))),
            (KERNEL_VERSION, ucast (Min_u32 (lversion env a) (lversion env b) AND 0xFFFF))]
      else [])"
  by (simp add: driver_unfold call_Lock_store loop_writes GetLogicalKernelVersion_no_store)
     (auto simp: raises_floor_def selectable_def deref_def)

lemma driver_locks:
  "locks_of (events (VerifyKernelDriver_f env fkb a b dev st)) =
     [KERNEL_KEY_VERSION, KERNEL_VERSION]"
  by (simp add: driver_unfold call_Lock_store loop_locks GetLogicalKernelVersion_no_store)


lemma driver_events_end:
  "\<exists>ev. events (VerifyKernelDriver_f env fkb a b dev st) =
          ev @ [Ev_LockStoredVersion KERNEL_KEY_VERSION, Ev_LockStoredVersion KERNEL_VERSION]"
  by (simp add: driver_unfold call_Lock_store)

text \<open>
  C7. Whatever \<^verbatim>\<open>VerifyKernelDriver_f\<close> returns (kernel A, kernel B or recovery), on return
  both counters, \<^verbatim>\<open>KERNEL_KEY_VERSION\<close> and \<^verbatim>\<open>KERNEL_VERSION\<close>, are locked: the store has
  both lock flags set, the call made exactly these two lock calls, in this order, and they
  are the last two collaborator calls of the run.
\<close>

theorem counters_locked_on_return:
  "(let r = VerifyKernelDriver_f env firmware_key_blob a b dev_mode st in
      is_locked (store r) KERNEL_KEY_VERSION \<and>
      is_locked (store r) KERNEL_VERSION \<and>
      locks_of (events r) = [KERNEL_KEY_VERSION, KERNEL_VERSION] \<and>
      last (butlast (events r)) = Ev_LockStoredVersion KERNEL_KEY_VERSION \<and>
      last (events r) = Ev_LockStoredVersion KERNEL_VERSION)"
  unfolding Let_def
proof (intro conjI)
  show "is_locked (store (VerifyKernelDriver_f env firmware_key_blob a b dev_mode st))
          KERNEL_KEY_VERSION"
    by (simp add: driver_store LockStoredVersion_def)
  show "is_locked (store (VerifyKernelDriver_f env firmware_key_blob a b dev_mode st))
          KERNEL_VERSION"
    by (simp add: driver_store LockStoredVersion_def)
  show "locks_of (events (VerifyKernelDriver_f env firmware_key_blob a b dev_mode st)) =
          [KERNEL_KEY_VERSION, KERNEL_VERSION]"
    by (rule driver_locks)
  obtain ev where ev:
    "events (VerifyKernelDriver_f env firmware_key_blob a b dev_mode st) =
       ev @ [Ev_LockStoredVersion KERNEL_KEY_VERSION, Ev_LockStoredVersion KERNEL_VERSION]"
    using driver_events_end by blast
  show "last (butlast (events (VerifyKernelDriver_f env firmware_key_blob a b dev_mode st))) =
          Ev_LockStoredVersion KERNEL_KEY_VERSION"
    unfolding ev by (simp add: butlast_append)
  show "last (events (VerifyKernelDriver_f env firmware_key_blob a b dev_mode st)) =
          Ev_LockStoredVersion KERNEL_VERSION"
    unfolding ev by simp
qed





lemma floor_raised_example:
  "writes_of (events
     (VerifyKernelDriver_f test_env (\<lambda>i. 0) (test_entry (test_kernel 0 6 1) 4 2 0)
        (test_entry (test_kernel 0 7 1) 2 0 1) 0 (test_store 0 5))) =
     [(KERNEL_KEY_VERSION, 0), (KERNEL_VERSION, 6)] \<and>
   stored_version (store
     (VerifyKernelDriver_f test_env (\<lambda>i. 0) (test_entry (test_kernel 0 6 1) 4 2 0)
        (test_entry (test_kernel 0 7 1) 2 0 1) 0 (test_store 0 5))) = 6 \<and>
   stored_version (test_store 0 5) = 5"
  by (simp add: driver_writes driver_store raises_floor_def test_simps Min_u32_def
        stored_version_def WriteStoredVersion_def LockStoredVersion_def test_store_def)

text \<open>
  C1. A candidate that is eligible and verifies, but whose logical version is strictly
  below the stored version, is not what \<^verbatim>\<open>VerifyKernelDriver_f\<close> returns: the result is
  the other candidate when that one is selectable, and recovery otherwise. When the
  rolled-back candidate is the one tried first, the loop goes on to the other candidate
  and tries it.
\<close>

theorem rollback_candidate_not_selected:
  "(let r = VerifyKernelDriver_f env firmware_key_blob a b dev_mode st in
      (eligible a \<and> verifies env firmware_key_blob dev_mode a \<and>
       lversion env a < stored_version st \<longrightarrow>
         kernel_to_boot r \<noteq> BOOT_KERNEL_A_CONTINUE \<and>
         kernel_to_boot r =
           (if selectable env firmware_key_blob dev_mode st b
            then BOOT_KERNEL_B_CONTINUE else BOOT_KERNEL_RECOVERY_CONTINUE) \<and>
         (boot_priority a \<ge> boot_priority b \<longrightarrow>
            kernelB r = after_try env firmware_key_blob dev_mode b)) \<and>
      (eligible b \<and> verifies env firmware_key_blob dev_mode b \<and>
       lversion env b < stored_version st \<longrightarrow>
         kernel_to_boot r \<noteq> BOOT_KERNEL_B_CONTINUE \<and>
         kernel_to_boot r =
           (if selectable env firmware_key_blob dev_mode st a
            then BOOT_KERNEL_A_CONTINUE else BOOT_KERNEL_RECOVERY_CONTINUE) \<and>
         (boot_priority a < boot_priority b \<longrightarrow>
            kernelA r = after_try env firmware_key_blob dev_mode a)))"
  unfolding Let_def
  by (auto simp: driver_kernel_to_boot driver_kernelA driver_kernelB selectable_def)

theorem rollback_candidate_not_selected_witness:
  "eligible (test_entry (test_kernel 0 3 1) 4 2 0) \<and>
   verifies test_env (\<lambda>i. 0) 0 (test_entry (test_kernel 0 3 1) 4 2 0) \<and>
   lversion test_env (test_entry (test_kernel 0 3 1) 4 2 0) < stored_version (test_store 0 5) \<and>
   kernel_to_boot
     (VerifyKernelDriver_f test_env (\<lambda>i. 0) (test_entry (test_kernel 0 3 1) 4 2 0)
        (test_entry (test_kernel 0 7 1) 2 0 1) 0 (test_store 0 5)) = BOOT_KERNEL_B_CONTINUE \<and>
   kernelB
     (VerifyKernelDriver_f test_env (\<lambda>i. 0) (test_entry (test_kernel 0 3 1) 4 2 0)
        (test_entry (test_kernel 0 7 1) 2 0 1) 0 (test_store 0 5)) =
     test_entry (test_kernel 0 7 1) 2 0 1"
  using rollback_candidate_not_selected [where env = test_env and firmware_key_blob = "\<lambda>i. 0"
      and a = "test_entry (test_kernel 0 3 1) 4 2 0"
      and b = "test_entry (test_kernel 0 7 1) 2 0 1" and dev_mode = 0 and st = "test_store 0 5"]
  by (simp add: Let_def test_simps)


subsection \<open>Which entries lose their priority\<close>

text \<open>
  Two runs in which a candidate that was not selected keeps its priority. In the first
  (scenario 1 of the spec) kernel A, of priority 4, is selected at once and the loop is left
  before kernel B is reached: B keeps priority 2. In the second, kernel A verifies but is
  below the stored version 5 and is passed over by \<^verbatim>\<open>continue\<close>, which skips the
  assignment at the end of the loop body: A keeps priority 4 while B is selected.
\<close>

theorem priority_reset_counterexample:
  "kernel_to_boot
     (VerifyKernelDriver_f test_env (\<lambda>i. 0) (test_entry (test_kernel 0 5 1) 4 2 0)
        (test_entry (test_kernel 0 7 1) 2 0 1) 0 (test_store 0 5)) = BOOT_KERNEL_A_CONTINUE \<and>
   boot_priority (kernelB
     (VerifyKernelDriver_f test_env (\<lambda>i. 0) (test_entry (test_kernel 0 5 1) 4 2 0)
        (test_entry (test_kernel 0 7 1) 2 0 1) 0 (test_store 0 5))) = 2 \<and>
   kernel_to_boot
     (VerifyKernelDriver_f test_env (\<lambda>i. 0) (test_entry (test_kernel 0 3 1) 4 2 0)
        (test_entry (test_kernel 0 7 1) 2 0 1) 0 (test_store 0 5)) = BOOT_KERNEL_B_CONTINUE \<and>
   boot_priority (kernelA
     (VerifyKernelDriver_f test_env (\<lambda>i. 0) (test_entry (test_kernel 0 3 1) 4 2 0)
        (test_entry (test_kernel 0 7 1) 2 0 1) 0 (test_store 0 5))) = 4"
  by (simp add: driver_kernel_to_boot driver_kernelA driver_kernelB test_simps)

text \<open>
  C3, as the code has it. The priority of a candidate is set to 0 exactly when the loop
  reaches the candidate and the candidate is not eligible or does not verify; in every
  other case it is what it was. The candidate tried first is always reached, the other one
  only when the first is not selected. In particular, when neither candidate is eligible
  and verifies, the result is recovery and both priorities are 0.
\<close>

theorem priority_reset_only_on_failed_try:
  "(let r = VerifyKernelDriver_f env firmware_key_blob a b dev_mode st in
      boot_priority (kernelA r) =
        (if (boot_priority a \<ge> boot_priority b \<or>
             \<not> selectable env firmware_key_blob dev_mode st b) \<and>
            \<not> (eligible a \<and> verifies env firmware_key_blob dev_mode a)
         then 0 else boot_priority a) \<and>
      boot_priority (kernelB r) =
        (if (boot_priority a < boot_priority b \<or>
             \<not> selectable env firmware_key_blob dev_mode st a) \<and>
            \<not> (eligible b \<and> verifies env firmware_key_blob dev_mode b)
         then 0 else boot_priority b) \<and>
      (\<not> (eligible a \<and> verifies env firmware_key_blob dev_mode a) \<and>
       \<not> (eligible b \<and> verifies env firmware_key_blob dev_mode b) \<longrightarrow>
         kernel_to_boot r = BOOT_KERNEL_RECOVERY_CONTINUE \<and>
         boot_priority (kernelA r) = 0 \<and> boot_priority (kernelB r) = 0))"
  unfolding Let_def
  by (auto simp: driver_kernel_to_boot driver_kernelA driver_kernelB selectable_def
        after_try_def decrement_tries_def)

theorem priority_reset_only_on_failed_try_witness:
  "\<not> (eligible (test_entry (test_kernel 0 5 1) 4 0 0) \<and>
       verifies test_env (\<lambda>i. 0) 0 (test_entry (test_kernel 0 5 1) 4 0 0)) \<and>
   \<not> (eligible (test_entry (test_kernel 0 7 0) 2 3 1) \<and>
       verifies test_env (\<lambda>i. 0) 0 (test_entry (test_kernel 0 7 0) 2 3 1)) \<and>
   kernel_to_boot
     (VerifyKernelDriver_f test_env (\<lambda>i. 0) (test_entry (test_kernel 0 5 1) 4 0 0)
        (test_entry (test_kernel 0 7 0) 2 3 1) 0 (test_store 0 5)) =
     BOOT_KERNEL_RECOVERY_CONTINUE \<and>
   boot_priority (kernelA
     (VerifyKernelDriver_f test_env (\<lambda>i. 0) (test_entry (test_kernel 0 5 1) 4 0 0)
        (test_entry (test_kernel 0 7 0) 2 3 1) 0 (test_store 0 5))) = 0 \<and>
   boot_priority (kernelB
     (VerifyKernelDriver_f test_env (\<lambda>i. 0) (test_entry (test_kernel 0 5 1) 4 0 0)
        (test_entry (test_kernel 0 7 0) 2 3 1) 0 (test_store 0 5))) = 0"
  using priority_reset_only_on_failed_try [where env = test_env and firmware_key_blob = "\<lambda>i. 0"
      and a = "test_entry (test_kernel 0 5 1) 4 0 0"
      and b = "test_entry (test_kernel 0 7 0) 2 3 1" and dev_mode = 0 and st = "test_store 0 5"]
  by (simp add: Let_def test_simps)

text \<open>
  C9. The candidates are tried in descending \<^verbatim>\<open>boot_priority\<close> order, kernel A first on a
  tie. When the priority of A is at least that of B, A is reached in any case, and B is
  reached only if A is not selected: a selectable A is returned and B is left untouched.
  When the priority of B is strictly greater, the same holds with the roles exchanged.
\<close>

theorem tried_in_priority_order_ties_to_A:
  "(let r = VerifyKernelDriver_f env firmware_key_blob a b dev_mode st in
      (boot_priority a \<ge> boot_priority b \<longrightarrow>
         kernelA r = after_try env firmware_key_blob dev_mode a \<and>
         (selectable env firmware_key_blob dev_mode st a \<longrightarrow>
            kernel_to_boot r = BOOT_KERNEL_A_CONTINUE \<and> kernelB r = b) \<and>
         (\<not> selectable env firmware_key_blob dev_mode st a \<longrightarrow>
            kernelB r = after_try env firmware_key_blob dev_mode b \<and>
            kernel_to_boot r =
              (if selectable env firmware_key_blob dev_mode st b
               then BOOT_KERNEL_B_CONTINUE else BOOT_KERNEL_RECOVERY_CONTINUE))) \<and>
      (boot_priority a < boot_priority b \<longrightarrow>
         kernelB r = after_try env firmware_key_blob dev_mode b \<and>
         (selectable env firmware_key_blob dev_mode st b \<longrightarrow>
            kernel_to_boot r = BOOT_KERNEL_B_CONTINUE \<and> kernelA r = a) \<and>
         (\<not> selectable env firmware_key_blob dev_mode st b \<longrightarrow>
            kernelA r = after_try env firmware_key_blob dev_mode a \<and>
            kernel_to_boot r =
              (if selectable env firmware_key_blob dev_mode st a
               then BOOT_KERNEL_A_CONTINUE else BOOT_KERNEL_RECOVERY_CONTINUE))))"
  unfolding Let_def
  by (auto simp: driver_kernel_to_boot driver_kernelA driver_kernelB)

theorem tried_in_priority_order_ties_to_A_witness:
  "boot_priority (test_entry (test_kernel 0 5 1) 3 2 0) \<ge>
     boot_priority (test_entry (test_kernel 0 7 1) 3 2 0) \<and>
   selectable test_env (\<lambda>i. 0) 0 (test_store 0 5) (test_entry (test_kernel 0 5 1) 3 2 0) \<and>
   selectable test_env (\<lambda>i. 0) 0 (test_store 0 5) (test_entry (test_kernel 0 7 1) 3 2 0) \<and>
   kernel_to_boot
     (VerifyKernelDriver_f test_env (\<lambda>i. 0) (test_entry (test_kernel 0 5 1) 3 2 0)
        (test_entry (test_kernel 0 7 1) 3 2 0) 0 (test_store 0 5)) = BOOT_KERNEL_A_CONTINUE \<and>
   kernelB
     (VerifyKernelDriver_f test_env (\<lambda>i. 0) (test_entry (test_kernel 0 5 1) 3 2 0)
        (test_entry (test_kernel 0 7 1) 3 2 0) 0 (test_store 0 5)) =
     test_entry (test_kernel 0 7 1) 3 2 0 \<and>
   boot_priority (test_entry (test_kernel 0 5 1) 3 2 0) <
     boot_priority (test_entry (test_kernel 0 7 1) 4 2 0) \<and>
   kernel_to_boot
     (VerifyKernelDriver_f test_env (\<lambda>i. 0) (test_entry (test_kernel 0 5 1) 3 2 0)
        (test_entry (test_kernel 0 7 1) 4 2 0) 0 (test_store 0 5)) = BOOT_KERNEL_B_CONTINUE \<and>
   kernelA
     (VerifyKernelDriver_f test_env (\<lambda>i. 0) (test_entry (test_kernel 0 5 1) 3 2 0)
        (test_entry (test_kernel 0 7 1) 4 2 0) 0 (test_store 0 5)) =
     test_entry (test_kernel 0 5 1) 3 2 0"
  using
    tried_in_priority_order_ties_to_A [where env = test_env and firmware_key_blob = "\<lambda>i. 0"
      and a = "test_entry (test_kernel 0 5 1) 3 2 0"
      and b = "test_entry (test_kernel 0 7 1) 3 2 0" and dev_mode = 0 and st = "test_store 0 5"]
    tried_in_priority_order_ties_to_A [where env = test_env and firmware_key_blob = "\<lambda>i. 0"
      and a = "test_entry (test_kernel 0 5 1) 3 2 0"
      and b = "test_entry (test_kernel 0 7 1) 4 2 0" and dev_mode = 0 and st = "test_store 0 5"]
  by (simp add: Let_def test_simps)


text \<open>
  C10. \<^verbatim>\<open>VerifyKernelDriver_f\<close> changes nothing of an entry but \<^verbatim>\<open>boot_priority\<close> and
  \<^verbatim>\<open>boot_tries_remaining\<close>: the blob and the success flag are as before. The priority is as
  before or 0. The tries count is as before, or one less, and then it was nonzero and the
  entry verified. A candidate that is reached, verifies and is passed over for rollback
  has had its nonzero tries count decremented all the same.
\<close>

theorem driver_changes_only_priority_and_tries:
  "(let r = VerifyKernelDriver_f env firmware_key_blob a b dev_mode st in
      kernelA r = a\<lparr>boot_priority := boot_priority (kernelA r),
                      boot_tries_remaining := boot_tries_remaining (kernelA r)\<rparr> \<and>
      kernelB r = b\<lparr>boot_priority := boot_priority (kernelB r),
                      boot_tries_remaining := boot_tries_remaining (kernelB r)\<rparr> \<and>
      kernel_blob (kernelA r) = kernel_blob a \<and>
      boot_success_flag (kernelA r) = boot_success_flag a \<and>
      kernel_blob (kernelB r) = kernel_blob b \<and>
      boot_success_flag (kernelB r) = boot_success_flag b \<and>
      (boot_priority (kernelA r) = boot_priority a \<or> boot_priority (kernelA r) = 0) \<and>
      (boot_priority (kernelB r) = boot_priority b \<or> boot_priority (kernelB r) = 0) \<and>
      (boot_tries_remaining (kernelA r) = boot_tries_remaining a \<or>
       0 < boot_tries_remaining a \<and> verifies env firmware_key_blob dev_mode a \<and>
       boot_tries_remaining (kernelA r) = boot_tries_remaining a - 1) \<and>
      (boot_tries_remaining (kernelB r) = boot_tries_remaining b \<or>
       0 < boot_tries_remaining b \<and> verifies env firmware_key_blob dev_mode b \<and>
       boot_tries_remaining (kernelB r) = boot_tries_remaining b - 1) \<and>
      (eligible a \<and> verifies env firmware_key_blob dev_mode a \<and>
       lversion env a < stored_version st \<and>
       (boot_priority a \<ge> boot_priority b \<or>
        \<not> selectable env firmware_key_blob dev_mode st b) \<longrightarrow>
         kernel_to_boot r \<noteq> BOOT_KERNEL_A_CONTINUE \<and>
         boot_tries_remaining (kernelA r) =
           (if 0 < boot_tries_remaining a then boot_tries_remaining a - 1 else 0)) \<and>
      (eligible b \<and> verifies env firmware_key_blob dev_mode b \<and>
       lversion env b < stored_version st \<and>
       (boot_priority a < boot_priority b \<or>
        \<not> selectable env firmware_key_blob dev_mode st a) \<longrightarrow>
         kernel_to_boot r \<noteq> BOOT_KERNEL_B_CONTINUE \<and>
         boot_tries_remaining (kernelB r) =
           (if 0 < boot_tries_remaining b then boot_tries_remaining b - 1 else 0)))"
proof -
  have A: "kernelA (VerifyKernelDriver_f env firmware_key_blob a b dev_mode st) = a \<or>
           kernelA (VerifyKernelDriver_f env firmware_key_blob a b dev_mode st) =
             a\<lparr>boot_priority := 0\<rparr> \<or>
           0 < boot_tries_remaining a \<and> verifies env firmware_key_blob dev_mode a \<and>
           kernelA (VerifyKernelDriver_f env firmware_key_blob a b dev_mode st) =
             a\<lparr>boot_tries_remaining := boot_tries_remaining a - 1\<rparr>"
    by (simp add: driver_kernelA after_try_def decrement_tries_def)
  have B: "kernelB (VerifyKernelDriver_f env firmware_key_blob a b dev_mode st) = b \<or>
           kernelB (VerifyKernelDriver_f env firmware_key_blob a b dev_mode st) =
             b\<lparr>boot_priority := 0\<rparr> \<or>
           0 < boot_tries_remaining b \<and> verifies env firmware_key_blob dev_mode b \<and>
           kernelB (VerifyKernelDriver_f env firmware_key_blob a b dev_mode st) =
             b\<lparr>boot_tries_remaining := boot_tries_remaining b - 1\<rparr>"
    by (simp add: driver_kernelB after_try_def decrement_tries_def)
  have RA: "eligible a \<and> verifies env firmware_key_blob dev_mode a \<and>
       lversion env a < stored_version st \<and>
       (boot_priority a \<ge> boot_priority b \<or>
        \<not> selectable env firmware_key_blob dev_mode st b) \<longrightarrow>
         kernel_to_boot (VerifyKernelDriver_f env firmware_key_blob a b dev_mode st) \<noteq>
           BOOT_KERNEL_A_CONTINUE \<and>
         boot_tries_remaining (kernelA (VerifyKernelDriver_f env firmware_key_blob a b dev_mode st)) =
           (if 0 < boot_tries_remaining a then boot_tries_remaining a - 1 else 0)"
    by (auto simp: driver_kernel_to_boot driver_kernelA selectable_def after_try_def
          decrement_tries_def)
  have RB: "eligible b \<and> verifies env firmware_key_blob dev_mode b \<and>
       lversion env b < stored_version st \<and>
       (boot_priority a < boot_priority b \<or>
        \<not> selectable env firmware_key_blob dev_mode st a) \<longrightarrow>
         kernel_to_boot (VerifyKernelDriver_f env firmware_key_blob a b dev_mode st) \<noteq>
           BOOT_KERNEL_B_CONTINUE \<and>
         boot_tries_remaining (kernelB (VerifyKernelDriver_f env firmware_key_blob a b dev_mode st)) =
           (if 0 < boot_tries_remaining b then boot_tries_remaining b - 1 else 0)"
    by (auto simp: driver_kernel_to_boot driver_kernelB selectable_def after_try_def
          decrement_tries_def)
  from A have A': "kernelA (VerifyKernelDriver_f env firmware_key_blob a b dev_mode st) =
      a\<lparr>boot_priority := boot_priority (kernelA (VerifyKernelDriver_f env firmware_key_blob a b dev_mode st)),
        boot_tries_remaining := boot_tries_remaining (kernelA (VerifyKernelDriver_f env firmware_key_blob a b dev_mode st))\<rparr>"
    by auto
  from B have B': "kernelB (VerifyKernelDriver_f env firmware_key_blob a b dev_mode st) =
      b\<lparr>boot_priority := boot_priority (kernelB (VerifyKernelDriver_f env firmware_key_blob a b dev_mode st)),
        boot_tries_remaining := boot_tries_remaining (kernelB (VerifyKernelDriver_f env firmware_key_blob a b dev_mode st))\<rparr>"
    by auto
  show ?thesis
    unfolding Let_def
    apply (intro conjI)
    subgoal by (rule A')
    subgoal by (rule B')
    subgoal using A by auto
    subgoal using A by auto
    subgoal using B by auto
    subgoal using B by auto
    subgoal using A by auto
    subgoal using B by auto
    subgoal using A by auto
    subgoal using B by auto
    subgoal by (rule RA)
    subgoal by (rule RB)
    done
qed

theorem driver_changes_only_priority_and_tries_witness:
  "eligible (test_entry (test_kernel 0 3 1) 4 2 0) \<and>
   verifies test_env (\<lambda>i. 0) 0 (test_entry (test_kernel 0 3 1) 4 2 0) \<and>
   lversion test_env (test_entry (test_kernel 0 3 1) 4 2 0) < stored_version (test_store 0 5) \<and>
   boot_priority (test_entry (test_kernel 0 3 1) 4 2 0) \<ge>
     boot_priority (test_entry (test_kernel 0 7 1) 2 0 1) \<and>
   kernel_to_boot
     (VerifyKernelDriver_f test_env (\<lambda>i. 0) (test_entry (test_kernel 0 3 1) 4 2 0)
        (test_entry (test_kernel 0 7 1) 2 0 1) 0 (test_store 0 5)) \<noteq> BOOT_KERNEL_A_CONTINUE \<and>
   boot_tries_remaining (kernelA
     (VerifyKernelDriver_f test_env (\<lambda>i. 0) (test_entry (test_kernel 0 3 1) 4 2 0)
        (test_entry (test_kernel 0 7 1) 2 0 1) 0 (test_store 0 5))) = 1"
  using driver_changes_only_priority_and_tries [where env = test_env
      and firmware_key_blob = "\<lambda>i. 0"
      and a = "test_entry (test_kernel 0 3 1) 4 2 0"
      and b = "test_entry (test_kernel 0 7 1) 2 0 1" and dev_mode = 0 and st = "test_store 0 5"]
  by (simp add: Let_def test_simps)

subsection \<open>GetLogicalKernelVersion\<close>

text \<open>
  C8. \<^verbatim>\<open>GetLogicalKernelVersion\<close> returns 0, having called no collaborator, when the
  firmware or the kernel signing algorithm read from the blob is at or above
  \<^verbatim>\<open>kNumAlgorithms\<close>. Otherwise it returns \<^verbatim>\<open>(kernel_key_version << 16) | kernel_version\<close>,
  the key version read after the two algorithm fields and the kernel version read after
  the key, the header checksum and the key signature; the upper half of the result is the
  key version and the lower half the kernel version. On no path does it compute a digest or
  verify a signature.
\<close>

theorem GetLogicalKernelVersion_value:
  "(let off = FIELD_LEN env f_magic + FIELD_LEN env f_header_version + FIELD_LEN env f_header_len;
        fsa = unat (Memcpy_u16 blob off);
        ksa = unat (Memcpy_u16 blob (off + FIELD_LEN env f_firmware_sign_algorithm));
        kkv = Memcpy_u16 blob
                (off + FIELD_LEN env f_firmware_sign_algorithm +
                 FIELD_LEN env f_kernel_sign_algorithm);
        kv = Memcpy_u16 blob
               (off + FIELD_LEN env f_firmware_sign_algorithm +
                FIELD_LEN env f_kernel_sign_algorithm +
                (FIELD_LEN env f_kernel_key_version + RSAProcessedKeySize env ksa +
                 FIELD_LEN env f_header_checksum + siglen_map env fsa));
        r = GetLogicalKernelVersion env blob
    in
      (kNumAlgorithms env \<le> fsa \<or> kNumAlgorithms env \<le> ksa \<longrightarrow> r = (0, [])) \<and>
      (fsa < kNumAlgorithms env \<and> ksa < kNumAlgorithms env \<longrightarrow>
         r = (push_bit 16 (ucast kkv) OR ucast kv,
              [Ev_siglen_map fsa, Ev_RSAProcessedKeySize ksa]) \<and>
         ucast (drop_bit 16 (fst r)) = kkv \<and> ucast (fst r) = kv) \<and>
      filter (\<lambda>e. is_digest e \<or> is_signature_check e) (snd r) = [])"
  using Combine_hi Combine_lo
  by (auto simp: GetLogicalKernelVersion_def Let_def CombineUint16Pair_def)

theorem GetLogicalKernelVersion_value_witness:
  "GetLogicalKernelVersion test_env (test_kernel 3 5 1) =
     (196613, [Ev_siglen_map 0, Ev_RSAProcessedKeySize 0]) \<and>
   GetLogicalKernelVersion test_env
     (blob_of [0, 0, 0, 0, 0, 0, 0, 0, 1, 0, 82, 0, 9, 0, 0, 0, 3, 0]) = (0, [])"
proof -
  have env:
    "FIELD_LEN test_env = chromeos_layout" "kNumAlgorithms test_env = 1"
    "RSAProcessedKeySize test_env = (\<lambda>a. 8)" "siglen_map test_env = (\<lambda>a. 4)"
    by (simp_all add: test_env_def)
  have rd: "Memcpy_u16 (test_kernel 3 5 1) 12 = 0" "Memcpy_u16 (test_kernel 3 5 1) 14 = 0"
    "Memcpy_u16 (test_kernel 3 5 1) 16 = 3" "Memcpy_u16 (test_kernel 3 5 1) 94 = 5"
    "Memcpy_u16 (blob_of [0, 0, 0, 0, 0, 0, 0, 0, 1, 0, 82, 0, 9, 0, 0, 0, 3, 0]) 12 = 9"
    by (simp_all add: Memcpy_u16_def bytes_at_def upt_rec test_kernel_def blob_of_def)
  show ?thesis
    using GetLogicalKernelVersion_value [of test_env "test_kernel 3 5 1"]
      GetLogicalKernelVersion_value [of test_env
        "blob_of [0, 0, 0, 0, 0, 0, 0, 0, 1, 0, 82, 0, 9, 0, 0, 0, 3, 0]"]
    by (simp add: Let_def env chromeos_layout_def rd)
qed

end
